theory Spec2Isabelle
  imports Complex_Main "HOL-Library.Sublist"
begin

section \<open>JavaScript strings\<close>

text \<open>
  A JavaScript string is a sequence of code units. It is modelled as a \<open>string\<close>, one
  \<open>char\<close> per code unit, which covers the code units below 256; the sentinel token and
  every white-space character that matters to the agent lie in that range.
\<close>

text \<open>\<open>s.indexOf(pat)\<close>: the least index at which \<open>pat\<close> occurs; \<open>None\<close> is \<open>-1\<close>.\<close>

fun indexOf :: "string \<Rightarrow> string \<Rightarrow> nat option" where
  "indexOf [] pat = (if pat = [] then Some 0 else None)"
| "indexOf (c # cs) pat =
     (if prefix pat (c # cs) then Some 0 else map_option Suc (indexOf cs pat))"

text \<open>
  \<open>s.substring(a, b)\<close> clamps both indices to the length and swaps them when \<open>a > b\<close>;
  \<open>s.substring(a)\<close> runs to the end.
\<close>

definition substring :: "string \<Rightarrow> nat \<Rightarrow> nat \<Rightarrow> string" where
  "substring s a b =
     (let a' = min a (length s); b' = min b (length s)
      in take (max a' b' - min a' b') (drop (min a' b') s))"

definition substringFrom :: "string \<Rightarrow> nat \<Rightarrow> string" where
  "substringFrom s a = drop a s"

text \<open>
  \<open>s.trim()\<close> strips white space at both ends: tab, line feed, vertical tab, form feed,
  carriage return, space and no-break space.
\<close>

definition isWhiteSpace :: "char \<Rightarrow> bool" where
  "isWhiteSpace c =
     (c = CHR 0x09 \<or> c = CHR 0x0A \<or> c = CHR 0x0B \<or> c = CHR 0x0C \<or> c = CHR 0x0D
      \<or> c = CHR 0x20 \<or> c = CHR 0xA0)"

definition trim :: "string \<Rightarrow> string" where
  "trim s = rev (dropWhile isWhiteSpace (rev (dropWhile isWhiteSpace s)))"

section \<open>The streaming loop of \<open>runAutonomousAgent\<close>\<close>

definition sentinel :: string where
  "sentinel = ''[--METADATA--]''"

text \<open>
  The loop's variables \<open>fullText\<close> and \<open>streamingBuffer\<close>, and \<open>sent\<close>, the arguments of
  the calls \<open>onStreamChunk?.(...)\<close> made so far, in order.
\<close>

record stream_state =
  fullText :: string
  streamingBuffer :: string
  sent :: "string list"

definition stream_init :: stream_state where
  "stream_init = \<lparr>fullText = [], streamingBuffer = [], sent = []\<rparr>"

text \<open>One iteration of \<open>for await (const chunk of responseStream)\<close>; an empty \<open>chunk.text\<close> is skipped.\<close>

definition stream_chunk :: "stream_state \<Rightarrow> string \<Rightarrow> stream_state" where
  "stream_chunk st chunkText =
     (if chunkText = [] then st
      else
        let full = fullText st @ chunkText in
        case indexOf full sentinel of
          Some metaStartIndex \<Rightarrow>
            let visibleText = substring full 0 metaStartIndex in
            if length visibleText > length (streamingBuffer st)
            then st\<lparr>fullText := full,
                    streamingBuffer := visibleText,
                    sent := sent st @ [substringFrom visibleText (length (streamingBuffer st))]\<rparr>
            else st\<lparr>fullText := full\<rparr>
        | None \<Rightarrow>
            st\<lparr>fullText := full,
               streamingBuffer := streamingBuffer st @ chunkText,
               sent := sent st @ [chunkText]\<rparr>)"

definition stream_loop :: "stream_state \<Rightarrow> string list \<Rightarrow> stream_state" where
  "stream_loop st chunks = foldl stream_chunk st chunks"

text \<open>What the user interface has received: the deltas, concatenated.\<close>

definition ui_text :: "string list \<Rightarrow> string" where
  "ui_text chunks = concat (sent (stream_loop stream_init chunks))"

text \<open>
  What the loop keeps true of its variables: the fragments handed over make up
  \<open>streamingBuffer\<close>, which is a prefix of \<open>fullText\<close> and all of it as long as the
  sentinel has not appeared.
\<close>

definition stream_inv :: "stream_state \<Rightarrow> bool" where
  "stream_inv st =
     (concat (sent st) = streamingBuffer st
      \<and> prefix (streamingBuffer st) (fullText st)
      \<and> (indexOf (fullText st) sentinel = None \<longrightarrow> streamingBuffer st = fullText st))"

section \<open>Values and collaborators of the agent\<close>

text \<open>
  The metadata block is free-form JSON, so its fields are duck-typed: a parsed JSON value
  is a \<open>json\<close>. A number is a real number: every finite JavaScript number is one.
\<close>

datatype json =
    JNull
  | JBool bool
  | JNum real
  | JStr string
  | JArr "json list"
  | JObj "(string \<times> json) list"

text \<open>A thrown value: an \<open>Error\<close> with its message, or any other value (an error object of the data service).\<close>

datatype error = JsError string | NonError string

datatype sender = User | Ai

text \<open>
  The value of the field \<open>text\<close> of a message. The type \<open>Message\<close> declares a string; the
  stream callback of \<open>handleSendMessage\<close> can store any other value there: \<open>NotText v\<close>,
  with \<open>None\<close> for \<open>undefined\<close>.
\<close>

datatype text_value = Text string | NotText "json option"

text \<open>
  A message draft (\<open>AgentOutput[0]\<close>, a \<open>Message\<close> without \<open>id\<close> and \<open>created_at\<close>).
  An absent optional field is \<open>None\<close>.
\<close>

record msg_draft =
  project_id :: string
  chat_id :: string
  user_id :: "string option"
  sender :: sender
  "text" :: text_value
  code :: "string option"
  language :: "json option"
  image_base64 :: "string option"
  imageStatus :: "string option"
  raw_ai_response :: "string option"
  plan :: "string option"

text \<open>\<open>AgentExecutionResult\<close>: the drafts and an optional plan update (message id, plan).\<close>

record agent_result =
  messages :: "msg_draft list"
  updatedPlan :: "(string \<times> string) option"

text \<open>
  The row of \<open>profiles\<close> that the agent reads; \<open>credits\<close> is a number, as the type of
  the row declares.
\<close>

record profile_row =
  membership :: string
  preferred_image_model :: "string option"
  credits :: real

text \<open>
  What the agent reads of its input: the prompt, the attached \<open>files\<close> (here
  \<open>input_files\<close>, each file known by its name; \<open>None\<close> is \<open>null\<close>), the ids of project,
  chat and user, and \<open>input.profile?.role\<close>.
\<close>

record agent_input =
  prompt :: string
  input_files :: "string list option"
  project :: string
  chat :: string
  user :: string
  role :: "string option"

text \<open>
  The outcomes of the calls the agent makes to code outside it. \<open>prepare\<close> is the
  outcome of lines 27 to 36, where the client, the history and the instruction are
  built: \<open>Some e\<close> when that throws. \<open>readAsDataURL\<close> is \<open>reader.result\<close> when the
  reader of a file fires \<open>loadend\<close>: the data URL, or \<open>None\<close> (\<open>null\<close>) when the read
  failed. \<open>responseStream\<close> is \<open>Inl e\<close> when \<open>generateContentStream\<close> rejects, else the
  fragments \<open>chunk.text\<close> in order (an undefined one as the empty string) and the error
  that ends the iteration, if any. A query of the data service rejects (\<open>Inl\<close>) or
  resolves to \<open>{data, error}\<close>. \<open>settingsFetch\<close> gives the row of \<open>app_settings\<close> as a
  map from column name to cost, a number. \<open>deductCredits\<close> is \<open>Some e\<close> when the
  awaited \<open>rpc('deduct_credits')\<close> rejects. \<open>generateImage\<close> rejects or resolves to
  \<open>{imageBase64, fallbackOccurred}\<close>. \<open>numberToString\<close> is the text that the language
  gives a number inside a template literal.
\<close>

record agent_env =
  prepare :: "error option"
  readAsDataURL :: "string \<Rightarrow> string option"
  responseStream :: "error + (string list \<times> error option)"
  jsonParse :: "string \<Rightarrow> json option"
  jsonStringify :: "json \<Rightarrow> string"
  profileFetch :: "error + (profile_row option \<times> error option)"
  settingsFetch :: "error + ((string \<Rightarrow> real option) option \<times> error option)"
  deductCredits :: "error option"
  generateImage :: "string \<Rightarrow> string \<Rightarrow> error + (string \<times> bool)"
  getUserFriendlyError :: "error \<Rightarrow> string"
  numberToString :: "real \<Rightarrow> string"

text \<open>The calls the agent makes, in the order it makes them.\<close>

datatype event =
    StreamChunk string
  | SaveMemory string "json option" "json option" "json option"
  | FetchProfile string
  | FetchSettings
  | DeductCredits string real
  | GenerateImage string string

text \<open>The calls to the image backend and to the credit deduction among them.\<close>

definition is_generation :: "event \<Rightarrow> bool" where
  "is_generation ev = (case ev of GenerateImage p m \<Rightarrow> True | _ \<Rightarrow> False)"

definition is_deduction :: "event \<Rightarrow> bool" where
  "is_deduction ev = (case ev of DeductCredits u a \<Rightarrow> True | _ \<Rightarrow> False)"

section \<open>Finalisation: the metadata block\<close>

text \<open>
  \<open>fullText.match(/\[--METADATA--\]([\s\S]*?)\[--METADATA--\]/)\<close>: the leftmost
  position at which the sentinel occurs and is followed by another occurrence, and the
  shortest text between the two. The result is the text before the match, group 1
  and the text after the match.
\<close>

fun metadataMatch :: "string \<Rightarrow> (string \<times> string \<times> string) option" where
  "metadataMatch [] = None"
| "metadataMatch (c # cs) =
     (let later = map_option (\<lambda>(b, g, a). (c # b, g, a)) (metadataMatch cs) in
      if prefix sentinel (c # cs)
      then
        (let rest = drop (length sentinel) (c # cs) in
         case indexOf rest sentinel of
           Some k \<Rightarrow> Some ([], take k rest, drop (k + length sentinel) rest)
         | None \<Rightarrow> later)
      else later)"

text \<open>\<open>(metadataMatch ? fullText.replace(metadataRegex, '') : fullText).trim()\<close>\<close>

definition userVisibleText :: "string \<Rightarrow> string" where
  "userVisibleText full =
     trim (case metadataMatch full of Some (b, g, a) \<Rightarrow> b @ a | None \<Rightarrow> full)"

text \<open>
  A property of a parsed value: the last binding of the key in an object, nothing for
  any other value (no array or string has one of the names read here).
\<close>

definition property :: "json \<Rightarrow> string \<Rightarrow> json option" where
  "property v k = (case v of JObj kvs \<Rightarrow> map_of (rev kvs) k | _ \<Rightarrow> None)"

text \<open>
  \<open>parsedMetadata\<close>: the four fields start as \<open>null\<close>; the parsed block is spread over
  them when the match has a non-empty group 1 and \<open>JSON.parse\<close> of the trimmed group
  does not throw. A parse failure is caught and leaves the defaults.
\<close>

definition parsedMetadata :: "(string \<Rightarrow> json option) \<Rightarrow> string \<Rightarrow> string \<Rightarrow> json" where
  "parsedMetadata parse full k =
     (case metadataMatch full of
        None \<Rightarrow> JNull
      | Some (b, g, a) \<Rightarrow>
          if g = [] then JNull
          else (case parse (trim g) of
                  None \<Rightarrow> JNull
                | Some v \<Rightarrow> (case property v k of Some x \<Rightarrow> x | None \<Rightarrow> JNull)))"

text \<open>\<open>x && typeof x === 'string' && x.trim()\<close>\<close>

definition nonBlankString :: "json \<Rightarrow> string option" where
  "nonBlankString v =
     (case v of JStr s \<Rightarrow> if s \<noteq> [] \<and> trim s \<noteq> [] then Some s else None | _ \<Rightarrow> None)"

text \<open>JavaScript truthiness of a parsed value.\<close>

definition truthy :: "json \<Rightarrow> bool" where
  "truthy v =
     (case v of JNull \<Rightarrow> False | JBool b \<Rightarrow> b | JNum n \<Rightarrow> n \<noteq> 0 | JStr s \<Rightarrow> s \<noteq> []
      | JArr xs \<Rightarrow> True | JObj kvs \<Rightarrow> True)"

text \<open>
  \<open>memoryToCreate.map(mem => saveMemory(supabase, user.id, mem.layer, mem.key, mem.value))\<close>:
  the calls in order; reading a property of a \<open>null\<close> element throws a \<open>TypeError\<close>.
\<close>

fun saveMemories :: "string \<Rightarrow> json list \<Rightarrow> event list \<times> error option" where
  "saveMemories uid [] = ([], None)"
| "saveMemories uid (mem # mems) =
     (if mem = JNull then ([], Some (JsError ''Cannot read properties of null (reading 'layer')''))
      else
        (case saveMemories uid mems of
           (evs, err) \<Rightarrow>
             (SaveMemory uid (property mem ''layer'') (property mem ''key'') (property mem ''value'') # evs,
              err)))"

section \<open>\<open>runAutonomousAgent\<close>\<close>

text \<open>A draft with the fields every branch sets: \<open>project_id\<close>, \<open>chat_id\<close>, \<open>sender: 'ai'\<close> and \<open>text\<close>.\<close>

definition ai_draft :: "agent_input \<Rightarrow> string \<Rightarrow> msg_draft" where
  "ai_draft inp t =
     \<lparr>project_id = project inp, chat_id = chat inp, user_id = None, sender = Ai,
      text = Text t, code = None, language = None, image_base64 = None, imageStatus = None,
      raw_ai_response = None, plan = None\<rparr>"

text \<open>\<open>if (input.profile?.role === 'admin') messagePayload.raw_ai_response = fullText\<close>\<close>

definition attach_raw :: "agent_input \<Rightarrow> string \<Rightarrow> msg_draft \<Rightarrow> msg_draft" where
  "attach_raw inp full d =
     (if role inp = Some ''admin'' then d\<lparr>raw_ai_response := Some full\<rparr> else d)"

definition single :: "msg_draft \<Rightarrow> agent_result" where
  "single d = \<lparr>messages = [d], updatedPlan = None\<rparr>"

text \<open>
  \<open>fileToGenerativePart\<close>, lines 9 to 21: the promise resolves in the \<open>loadend\<close>
  handler of the reader and has no path that rejects. When the read failed,
  \<open>reader.result\<close> is \<open>null\<close>, the handler throws before it resolves, and the promise
  never settles. So the loop of lines 37 to 42 ends exactly when every file is read.
\<close>

definition files_read :: "agent_env \<Rightarrow> string list option \<Rightarrow> bool" where
  "files_read env fs =
     (case fs of
        None \<Rightarrow> True
      | Some names \<Rightarrow> list_all (\<lambda>f. readAsDataURL env f \<noteq> None) names)"

text \<open>
  Lines 27 to 79: the request is built, the files are read, the stream is opened and
  consumed. The outcome is \<open>None\<close> when the agent waits for ever on a file, else the error
  thrown or \<open>fullText\<close>; the events are the calls of \<open>onStreamChunk\<close>.
\<close>

definition run_stream :: "agent_env \<Rightarrow> agent_input \<Rightarrow> event list \<times> (error + string) option" where
  "run_stream env inp =
     (case prepare env of
        Some e \<Rightarrow> ([], Some (Inl e))
      | None \<Rightarrow>
          if \<not> files_read env (input_files inp) then ([], None)
          else
            (case responseStream env of
               Inl e \<Rightarrow> ([], Some (Inl e))
             | Inr (chunks, failure) \<Rightarrow>
                 (let st = stream_loop stream_init chunks in
                  (map StreamChunk (sent st),
                   case failure of
                     Some e \<Rightarrow> Some (Inl e)
                   | None \<Rightarrow> Some (Inr (fullText st))))))"

text \<open>The outcome of lines 138 to 147 for a user who is not an administrator.\<close>

datatype gate = Shortfall string | Proceed

definition shortfall_notice :: "(real \<Rightarrow> string) \<Rightarrow> real \<Rightarrow> real \<Rightarrow> string" where
  "shortfall_notice render cost have =
     ''Oops! You need '' @ render cost @ '' credits to generate an image, but you only have ''
       @ render have @ ''.''"

text \<open>\<open>settings[`cost_image_${modelToUse}`] || 1\<close>\<close>

definition lookup_cost :: "(string \<Rightarrow> real option) \<Rightarrow> string \<Rightarrow> real" where
  "lookup_cost settings modelToUse =
     (case settings (''cost_image_'' @ modelToUse) of
        Some c \<Rightarrow> if c = 0 then 1 else c
      | None \<Rightarrow> 1)"

definition credit_gate ::
  "agent_env \<Rightarrow> agent_input \<Rightarrow> profile_row \<Rightarrow> string \<Rightarrow> event list \<times> (error + gate)" where
  "credit_gate env inp latestProfile modelToUse =
     (case settingsFetch env of
        Inl e \<Rightarrow> ([FetchSettings], Inl e)
      | Inr (settings, settingsError) \<Rightarrow>
          (case settingsError of
             Some e \<Rightarrow> ([FetchSettings], Inl e)
           | None \<Rightarrow>
               (case settings of
                  None \<Rightarrow> ([FetchSettings], Inl (JsError ''Could not load credit cost settings.''))
                | Some tbl \<Rightarrow>
                    (let cost = lookup_cost tbl modelToUse in
                     if credits latestProfile < cost
                     then ([FetchSettings],
                           Inr (Shortfall
                                  (shortfall_notice (numberToString env) cost
                                     (credits latestProfile))))
                     else
                       (case deductCredits env of
                          Some e \<Rightarrow> ([FetchSettings, DeductCredits (user inp) cost], Inl e)
                        | None \<Rightarrow> ([FetchSettings, DeductCredits (user inp) cost], Inr Proceed))))))"

text \<open>The disclosure appended to the text when the fallback model made the image.\<close>

definition fallback_note :: string where
  "fallback_note =
     [CHR 0x0A, CHR 0x0A]
       @ ''*(Note: The premium image model failed, so I used a faster fallback to generate this image.)*''"

text \<open>Lines 149 to 160: the image is generated and the draft is built.\<close>

definition generate_and_build ::
  "agent_env \<Rightarrow> agent_input \<Rightarrow> string \<Rightarrow> string \<Rightarrow> string \<Rightarrow> string
     \<Rightarrow> event list \<times> (error + agent_result)" where
  "generate_and_build env inp full visible imagePrompt modelToUse =
     (case generateImage env imagePrompt modelToUse of
        Inl e \<Rightarrow> ([GenerateImage imagePrompt modelToUse], Inl e)
      | Inr (imageBase64, fallbackOccurred) \<Rightarrow>
          (let finalText =
                 (if fallbackOccurred then visible @ fallback_note else visible)
           in ([GenerateImage imagePrompt modelToUse],
               Inr (single (attach_raw inp full
                      ((ai_draft inp finalText)
                         \<lparr>image_base64 := Some imageBase64, imageStatus := Some ''complete''\<rparr>))))))"

text \<open>\<open>latestProfile.preferred_image_model || 'nano_banana'\<close>\<close>

definition modelToUse :: "profile_row \<Rightarrow> string" where
  "modelToUse p =
     (case preferred_image_model p of
        Some m \<Rightarrow> if m = [] then ''nano_banana'' else m
      | None \<Rightarrow> ''nano_banana'')"

text \<open>
  Lines 127 to 132: the event that tells the user interface that generation starts, and
  the fresh read of the profile.
\<close>

definition image_start :: "agent_env \<Rightarrow> agent_input \<Rightarrow> string \<Rightarrow> event list" where
  "image_start env inp visible =
     [StreamChunk (jsonStringify env
        (JObj [(''type'', JStr ''image_generation_start''), (''text'', JStr visible)])),
      FetchProfile (user inp)]"

text \<open>Case 2, lines 125 to 161.\<close>

definition image_branch ::
  "agent_env \<Rightarrow> agent_input \<Rightarrow> string \<Rightarrow> string \<Rightarrow> string
     \<Rightarrow> event list \<times> (error + agent_result)" where
  "image_branch env inp full visible imagePrompt =
     (let start = image_start env inp visible in
      case profileFetch env of
        Inl e \<Rightarrow> (start, Inl e)
      | Inr (latestProfile, profileError) \<Rightarrow>
          (case profileError of
             Some e \<Rightarrow> (start, Inl e)
           | None \<Rightarrow>
               (case latestProfile of
                  None \<Rightarrow>
                    (start, Inl (JsError ''Could not re-fetch user profile for image generation.''))
                | Some p \<Rightarrow>
                    (let isAdmin = (membership p = ''admin'') in
                     if \<not> isAdmin
                     then
                       (case credit_gate env inp p (modelToUse p) of
                          (evs, Inl e) \<Rightarrow> (start @ evs, Inl e)
                        | (evs, Inr (Shortfall notice)) \<Rightarrow>
                            (start @ evs, Inr (single (ai_draft inp notice)))
                        | (evs, Inr Proceed) \<Rightarrow>
                            (case generate_and_build env inp full visible imagePrompt
                                    (modelToUse p) of
                               (evs', r) \<Rightarrow> (start @ evs @ evs', r)))
                     else
                       (case generate_and_build env inp full visible imagePrompt (modelToUse p) of
                          (evs', r) \<Rightarrow> (start @ evs', r))))))"

text \<open>Lines 105 to 110: the background memory requests.\<close>

definition memory_requests :: "agent_input \<Rightarrow> json \<Rightarrow> event list \<times> error option" where
  "memory_requests inp memoryToCreate =
     (case memoryToCreate of
        JArr mems \<Rightarrow> if mems \<noteq> [] then saveMemories (user inp) mems else ([], None)
      | _ \<Rightarrow> ([], None))"

text \<open>Lines 83 to 172, from the complete \<open>fullText\<close>.\<close>

definition dispatch ::
  "agent_env \<Rightarrow> agent_input \<Rightarrow> string \<Rightarrow> event list \<times> (error + agent_result)" where
  "dispatch env inp full =
     (let visible = userVisibleText full;
          md = parsedMetadata (jsonParse env) full
      in
      case memory_requests inp (md ''memoryToCreate'') of
        (mem_evs, Some e) \<Rightarrow> (mem_evs, Inl e)
      | (mem_evs, None) \<Rightarrow>
          (case nonBlankString (md ''code'') of
             Some c \<Rightarrow>
               (mem_evs,
                Inr (single (attach_raw inp full
                       ((ai_draft inp visible)
                          \<lparr>code := Some (trim c),
                           language := Some (if truthy (md ''language'') then md ''language''
                                             else JStr ''plaintext'')\<rparr>))))
           | None \<Rightarrow>
               (case nonBlankString (md ''imagePrompt'') of
                  Some imagePrompt \<Rightarrow>
                    (case image_branch env inp full visible imagePrompt of
                       (evs, r) \<Rightarrow> (mem_evs @ evs, r))
                | None \<Rightarrow>
                    if visible \<noteq> []
                    then (mem_evs, Inr (single (attach_raw inp full (ai_draft inp visible))))
                    else (mem_evs, Inl (JsError ''The AI returned an empty response.'')))))"

text \<open>The body of the \<open>try\<close> block; \<open>None\<close> when it never ends.\<close>

definition agent_try ::
  "agent_env \<Rightarrow> agent_input \<Rightarrow> event list \<times> (error + agent_result) option" where
  "agent_try env inp =
     (case run_stream env inp of
        (evs, None) \<Rightarrow> (evs, None)
      | (evs, Some (Inl e)) \<Rightarrow> (evs, Some (Inl e))
      | (evs, Some (Inr full)) \<Rightarrow>
          (case dispatch env inp full of (evs', r) \<Rightarrow> (evs @ evs', Some r)))"

text \<open>The \<open>catch\<close> block, lines 174 to 184.\<close>

definition agent_catch :: "agent_env \<Rightarrow> agent_input \<Rightarrow> error \<Rightarrow> error + agent_result" where
  "agent_catch env inp e =
     Inr (single (ai_draft inp (''An error occurred: '' @ getUserFriendlyError env e)))"

text \<open>
  The promise that \<open>runAutonomousAgent\<close> returns, with the calls made on the way:
  \<open>None\<close> when it never settles, \<open>Some (Inl e)\<close> when it rejects with \<open>e\<close>,
  \<open>Some (Inr r)\<close> when it resolves to \<open>r\<close>.
\<close>

definition runAutonomousAgent ::
  "agent_env \<Rightarrow> agent_input \<Rightarrow> event list \<times> (error + agent_result) option" where
  "runAutonomousAgent env inp =
     (case agent_try env inp of
        (evs, None) \<Rightarrow> (evs, None)
      | (evs, Some (Inl e)) \<Rightarrow> (evs, Some (agent_catch env inp e))
      | (evs, Some (Inr r)) \<Rightarrow> (evs, Some (Inr r)))"

section \<open>\<open>handleSendMessage\<close>\<close>

text \<open>
  A \<open>Message\<close> of the view: a draft with its identity (\<open>id\<close>, here \<open>msg_id\<close>) and
  \<open>created_at\<close>.
\<close>

record message =
  msg_id :: string
  created_at :: "string option"
  content :: msg_draft

text \<open>
  The state of the hook that the function writes: \<open>messages\<close> (here \<open>view_messages\<close>)
  and \<open>isLoading\<close>.
\<close>

record hook_state =
  view_messages :: "message list"
  isLoading :: bool

text \<open>
  What the function reads of \<open>chatToUse\<close>: \<open>id\<close>, \<open>project_id\<close> and the id of the
  joined project \<open>projects\<close>, if there is one.
\<close>

record chat_data =
  chat_ident :: string
  chat_project_id :: string
  projects :: "string option"

text \<open>
  The values the callback closes over: whether \<open>supabase\<close> is there, the id of \<open>user\<close>,
  \<open>geminiApiKey\<close> and the role of \<open>profile\<close>. The captured \<open>messages\<close> are those of the
  state in which the call starts.
\<close>

record hook_ctx =
  supabase :: bool
  auth_user :: "string option"
  geminiApiKey :: "string option"
  profile_role :: "string option"

text \<open>The arguments; a file is known by its name.\<close>

record send_args =
  text_arg :: string
  files :: "string list option"
  chatToUse :: "chat_data option"

text \<open>The calls the function makes, in order.\<close>

datatype effect =
    AddToast string string
  | AddMessage msg_draft
  | RunAgent agent_input "message list"
  | ExtractAndSaveMemory string text_value text_value string
  | UpdateMessagePlan string string


text \<open>
  The outcomes of the calls to code outside the function: the two readings of
  \<open>Date.now()\<close> and the time stamp, as text; the reading of one file; the \<open>n\<close>-th call
  of \<open>addMessage\<close>; \<open>runAgent\<close>, which hands fragments to \<open>onStreamChunk\<close> in order and
  then never settles (\<open>None\<close>), rejects or resolves; \<open>updateMessagePlan\<close>;
  \<open>JSON.parse\<close> and \<open>JSON.stringify\<close>; and \<open>stringOf\<close>, the text that the operator
  \<open>+\<close> of the language gives a value that is not a string.
\<close>

record hook_env =
  dateNowUser :: string
  dateNowAi :: string
  isoNow :: string
  fileToBase64 :: "string \<Rightarrow> error + string"
  addMessage :: "nat \<Rightarrow> msg_draft \<Rightarrow> error + message"
  runAgent ::
    "agent_input \<Rightarrow> message list \<Rightarrow> string list \<times> (error + agent_result) option"
  updateMessagePlan :: "error option"
  parseJSON :: "string \<Rightarrow> json option"
  stringifyJSON :: "json \<Rightarrow> string"
  stringOf :: "json option \<Rightarrow> string"

definition no_messages :: agent_result where
  "no_messages = \<lparr>messages = [], updatedPlan = None\<rparr>"

text \<open>The first line of the function: the condition under which it returns at once.\<close>

definition returns_at_once :: "hook_ctx \<Rightarrow> send_args \<Rightarrow> bool" where
  "returns_at_once ctx args =
     ((trim (text_arg args) = [] \<and> (files args = None \<or> files args = Some []))
      \<or> \<not> supabase ctx \<or> auth_user ctx = None \<or> chatToUse args = None
      \<or> geminiApiKey ctx = None \<or> geminiApiKey ctx = Some [])"

text \<open>\<open>Promise.all(files.map(fileToBase64))\<close>: every result, or the first rejection.\<close>

fun read_all :: "(string \<Rightarrow> error + string) \<Rightarrow> string list \<Rightarrow> error + string list" where
  "read_all rd [] = Inr []"
| "read_all rd (f # fs) =
     (case rd f of
        Inl e \<Rightarrow> Inl e
      | Inr b \<Rightarrow> (case read_all rd fs of Inl e \<Rightarrow> Inl e | Inr bs \<Rightarrow> Inr (b # bs)))"

text \<open>Lines 161 to 172: the value of \<open>image_base64\<close> for the user's message, or the read error.\<close>

definition attachment :: "hook_env \<Rightarrow> string list option \<Rightarrow> error + string option" where
  "attachment env fs =
     (case fs of
        None \<Rightarrow> Inr None
      | Some names \<Rightarrow>
          if names = [] then Inr None
          else (case read_all (fileToBase64 env) names of
                  Inl e \<Rightarrow> Inl e
                | Inr base64Strings \<Rightarrow>
                    Inr (Some (if length names = 1 then hd base64Strings
                               else stringifyJSON env (JArr (map JStr base64Strings))))))"

text \<open>
  \<open>onStreamChunk\<close>, lines 190 to 203, as an update of \<open>messages\<close>. A fragment that parses
  to a value whose \<open>type\<close> is \<open>'image_generation_start'\<close> is an event, and \<open>event.text\<close>
  is stored as it is, a string or not. Any other fragment is appended to the text by
  \<open>m.text + chunk\<close>, which first turns a text that is not a string into one.
\<close>

definition event_text :: "json \<Rightarrow> text_value" where
  "event_text ev = (case property ev ''text'' of Some (JStr s) \<Rightarrow> Text s | v \<Rightarrow> NotText v)"

definition text_plus :: "(json option \<Rightarrow> string) \<Rightarrow> text_value \<Rightarrow> string \<Rightarrow> text_value" where
  "text_plus coerce t chunk =
     (case t of Text s \<Rightarrow> Text (s @ chunk) | NotText v \<Rightarrow> Text (coerce v @ chunk))"

definition onStreamChunk ::
  "(string \<Rightarrow> json option) \<Rightarrow> (json option \<Rightarrow> string) \<Rightarrow> string \<Rightarrow> message list \<Rightarrow> string
     \<Rightarrow> message list" where
  "onStreamChunk parse coerce tempAiMessageId prev chunk =
     (case (case parse chunk of
              None \<Rightarrow> None
            | Some ev \<Rightarrow>
                if property ev ''type'' = Some (JStr ''image_generation_start'')
                then Some ev else None) of
        Some ev \<Rightarrow>
          map (\<lambda>m. if msg_id m = tempAiMessageId
                    then m\<lparr>content := (content m)\<lparr>text := event_text ev,
                                                     imageStatus := Some ''generating''\<rparr>\<rparr>
                    else m) prev
      | None \<Rightarrow>
          map (\<lambda>m. if msg_id m = tempAiMessageId
                    then m\<lparr>content :=
                             (content m)\<lparr>text := text_plus coerce (text (content m)) chunk\<rparr>\<rparr>
                    else m) prev)"

text \<open>Lines 215 to 219: the drafts are persisted in order; the first failure ends the loop.\<close>

fun save_all ::
  "(nat \<Rightarrow> msg_draft \<Rightarrow> error + message) \<Rightarrow> string \<Rightarrow> nat \<Rightarrow> msg_draft list
     \<Rightarrow> effect list \<times> (error + message list)" where
  "save_all add pid n [] = ([], Inr [])"
| "save_all add pid n (messageContent # rest) =
     (let d = messageContent\<lparr>project_id := pid\<rparr> in
      case add n d of
        Inl e \<Rightarrow> ([AddMessage d], Inl e)
      | Inr savedAiMessage \<Rightarrow>
          (case save_all add pid (Suc n) rest of
             (effs, Inl e) \<Rightarrow> (AddMessage d # effs, Inl e)
           | (effs, Inr saved) \<Rightarrow> (AddMessage d # effs, Inr (savedAiMessage # saved))))"

text \<open>Lines 226 to 236: the last update of \<open>messages\<close>.\<close>

definition final_view ::
  "string \<Rightarrow> message list \<Rightarrow> (string \<times> string) option \<Rightarrow> message list \<Rightarrow> message list" where
  "final_view tempAiMessageId savedAiMessages upd prev =
     (let finalMessages = filter (\<lambda>m. msg_id m \<noteq> tempAiMessageId) prev @ savedAiMessages in
      case upd of
        Some (messageId, pl) \<Rightarrow>
          map (\<lambda>m. if msg_id m = messageId
                    then m\<lparr>content := (content m)\<lparr>plan := Some pl\<rparr>\<rparr> else m) finalMessages
      | None \<Rightarrow> finalMessages)"

text \<open>
  Lines 205 to 211: what the agent is given. Outside a project the stand-in
  \<open>DUMMY_AUTONOMOUS_PROJECT\<close> is used, whose id is \<open>autonomous-project\<close>.
\<close>

definition agent_input_for ::
  "hook_ctx \<Rightarrow> string \<Rightarrow> string list option \<Rightarrow> string \<Rightarrow> chat_data \<Rightarrow> agent_input" where
  "agent_input_for ctx txt fs uid c =
     \<lparr>prompt = txt,
      input_files = fs,
      project = (case projects c of Some p \<Rightarrow> p | None \<Rightarrow> ''autonomous-project''),
      chat = chat_ident c, user = uid, role = profile_role ctx\<rparr>"

text \<open>
  The body of the \<open>try\<close> block, lines 182 to 239, from the state that holds the two
  placeholders: the state it leaves, the calls it makes, and its outcome: \<open>None\<close> when
  the awaited agent never settles, else the error it throws or the result it returns.
\<close>

definition turn_try ::
  "hook_env \<Rightarrow> hook_ctx \<Rightarrow> string \<Rightarrow> string list option \<Rightarrow> string \<Rightarrow> chat_data \<Rightarrow> message list
     \<Rightarrow> msg_draft \<Rightarrow> string \<Rightarrow> string \<Rightarrow> hook_state
     \<Rightarrow> hook_state \<times> effect list \<times> (error + agent_result) option" where
  "turn_try env ctx txt fs uid c captured userMessageData tempUserMessageId tempAiMessageId st =
     (case addMessage env 0 userMessageData of
        Inl e \<Rightarrow> (st, [AddMessage userMessageData], Some (Inl e))
      | Inr savedUserMessage \<Rightarrow>
          (let st2 = st\<lparr>view_messages :=
                          map (\<lambda>m. if msg_id m = tempUserMessageId then savedUserMessage else m)
                            (view_messages st)\<rparr>;
               historyForAgent =
                 filter (\<lambda>m. msg_id m \<noteq> tempUserMessageId \<and> msg_id m \<noteq> tempAiMessageId) captured
                   @ [savedUserMessage];
               inp = agent_input_for ctx txt fs uid c;
               effs1 = [AddMessage userMessageData, RunAgent inp historyForAgent]
           in
           case runAgent env inp historyForAgent of
             (chunks, outcome) \<Rightarrow>
               (let st3 = st2\<lparr>view_messages :=
                               foldl (onStreamChunk (parseJSON env) (stringOf env) tempAiMessageId)
                                 (view_messages st2) chunks\<rparr>
                in
                case outcome of
                  None \<Rightarrow> (st3, effs1, None)
                | Some (Inl e) \<Rightarrow> (st3, effs1, Some (Inl e))
                | Some (Inr agentResult) \<Rightarrow>
                    (case save_all (addMessage env) (chat_project_id c) 1 (messages agentResult) of
                       (effs2, Inl e) \<Rightarrow> (st3, effs1 @ effs2, Some (Inl e))
                     | (effs2, Inr savedAiMessages) \<Rightarrow>
                         (let effs3 =
                                (case savedAiMessages of
                                   [] \<Rightarrow> []
                                 | first # _ \<Rightarrow>
                                     [ExtractAndSaveMemory uid (text (content savedUserMessage))
                                        (text (content first)) (chat_project_id c)]);
                              st4 = st3\<lparr>view_messages :=
                                           final_view tempAiMessageId savedAiMessages
                                             (updatedPlan agentResult) (view_messages st3)\<rparr>
                          in
                          case updatedPlan agentResult of
                            None \<Rightarrow> (st4, effs1 @ effs2 @ effs3, Some (Inr agentResult))
                          | Some (messageId, pl) \<Rightarrow>
                              (case updateMessagePlan env of
                                 Some e \<Rightarrow>
                                   (st4, effs1 @ effs2 @ effs3 @ [UpdateMessagePlan messageId pl],
                                    Some (Inl e))
                               | None \<Rightarrow>
                                   (st4, effs1 @ effs2 @ effs3 @ [UpdateMessagePlan messageId pl],
                                    Some (Inr agentResult))))))))"

text \<open>\<open>e instanceof Error ? e.message : "An unknown error occurred."\<close>\<close>

definition toast_text :: "error \<Rightarrow> string" where
  "toast_text e = (case e of JsError m \<Rightarrow> m | NonError v \<Rightarrow> ''An unknown error occurred.'')"

text \<open>
  The whole function: the state it leaves, the calls it makes and the result it returns,
  \<open>None\<close> when it never returns. In that case neither the \<open>catch\<close> nor the \<open>finally\<close>
  block has run.
\<close>

definition handleSendMessage ::
  "hook_env \<Rightarrow> hook_ctx \<Rightarrow> send_args \<Rightarrow> hook_state
     \<Rightarrow> hook_state \<times> effect list \<times> agent_result option" where
  "handleSendMessage env ctx args st =
     (if returns_at_once ctx args then (st, [], Some no_messages)
      else
        case (auth_user ctx, chatToUse args) of
          (Some uid, Some c) \<Rightarrow>
            (let tempUserMessageId = ''temp-user-'' @ dateNowUser env;
                 tempAiMessageId = ''temp-ai-'' @ dateNowAi env;
                 userMessageData0 =
                   \<lparr>project_id = chat_project_id c, chat_id = chat_ident c, user_id = Some uid,
                    sender = User, text = Text (text_arg args), code = None, language = None,
                    image_base64 = None, imageStatus = None, raw_ai_response = None, plan = None\<rparr>
             in
             case attachment env (files args) of
               Inl e \<Rightarrow>
                 (st, [AddToast ''Failed to read the attached file(s).'' ''error''], Some no_messages)
             | Inr img \<Rightarrow>
                 (let userMessageData =
                        (case img of
                           None \<Rightarrow> userMessageData0
                         | Some b \<Rightarrow> userMessageData0\<lparr>image_base64 := Some b\<rparr>);
                      tempUserMessage =
                        \<lparr>msg_id = tempUserMessageId, created_at = Some (isoNow env),
                         content = userMessageData\<rparr>;
                      tempAiMessage =
                        \<lparr>msg_id = tempAiMessageId, created_at = None,
                         content =
                           \<lparr>project_id = chat_project_id c, chat_id = chat_ident c, user_id = None,
                            sender = Ai, text = Text [], code = None, language = None,
                            image_base64 = None, imageStatus = None, raw_ai_response = None,
                            plan = None\<rparr>\<rparr>;
                      st1 = st\<lparr>isLoading := True,
                               view_messages := view_messages st @ [tempUserMessage, tempAiMessage]\<rparr>
                  in
                  case turn_try env ctx (text_arg args) (files args) uid c (view_messages st)
                         userMessageData tempUserMessageId tempAiMessageId st1 of
                    (st', effs, None) \<Rightarrow> (st', effs, None)
                  | (st', effs, Some (Inr agentResult)) \<Rightarrow>
                      (st'\<lparr>isLoading := False\<rparr>, effs, Some agentResult)
                  | (st', effs, Some (Inl e)) \<Rightarrow>
                      (st'\<lparr>view_messages :=
                             filter (\<lambda>m. msg_id m \<noteq> tempUserMessageId \<and> msg_id m \<noteq> tempAiMessageId)
                               (view_messages st'),
                           isLoading := False\<rparr>,
                       effs @ [AddToast (toast_text e) ''error''],
                       Some no_messages)))
        | _ \<Rightarrow> (st, [], Some no_messages))"

text \<open>The fragments handed to \<open>onStreamChunk\<close> among the agent's calls.\<close>

definition stream_chunks :: "event list \<Rightarrow> string list" where
  "stream_chunks evs = concat (map (\<lambda>ev. case ev of StreamChunk s \<Rightarrow> [s] | _ \<Rightarrow> []) evs)"

text \<open>
  Modelled from the spec: \<open>runAgent\<close> (the module \<open>agents\<close>) is not among the sources. The
  turn orchestrator "invokes the model, drives StreamParser, invokes ActionDispatcher",
  which is \<open>runAutonomousAgent\<close>: the fragments are its calls of \<open>onStreamChunk\<close>, the
  outcome is its promise. The history only shapes the request, whose outcome is part of
  the agent's environment.
\<close>

definition runAgent_autonomous ::
  "agent_env \<Rightarrow> agent_input \<Rightarrow> message list
     \<Rightarrow> string list \<times> (error + agent_result) option" where
  "runAgent_autonomous aenv inp history =
     (case runAutonomousAgent aenv inp of (evs, outcome) \<Rightarrow> (stream_chunks evs, outcome))"

section \<open>Example turns\<close>

text \<open>
  A turn of a user with no credits who asks for a picture, with the cost table
  \<open>{cost_image_nano_banana: 1}\<close>. The other examples vary it. The stand-ins for the
  conversions of the language (\<open>ex_parse\<close>, \<open>ex_stringify\<close>, \<open>ex_number\<close>,
  \<open>ex_string_of\<close>) are only used on the values that occur in the examples.
\<close>

definition quoted :: "string \<Rightarrow> string" where
  "quoted s = CHR 0x22 # s @ [CHR 0x22]"

definition cat_block :: string where
  "cat_block = ''{'' @ quoted ''imagePrompt'' @ '':'' @ quoted ''a cat'' @ ''}''"

definition code_block :: string where
  "code_block =
     ''{'' @ quoted ''code'' @ '':'' @ quoted ''print(1)'' @ '','' @ quoted ''imagePrompt'' @ '':''
       @ quoted ''a cat'' @ ''}''"

definition cat_response :: string where
  "cat_response = ''On it! '' @ sentinel @ cat_block @ sentinel"

definition code_response :: string where
  "code_response = ''Here: '' @ sentinel @ code_block @ sentinel"

definition ex_parse :: "string \<Rightarrow> json option" where
  "ex_parse s =
     (if s = ''{}'' then Some (JObj [])
      else if s = cat_block then Some (JObj [(''imagePrompt'', JStr ''a cat'')])
      else if s = code_block
      then Some (JObj [(''code'', JStr ''print(1)''), (''imagePrompt'', JStr ''a cat'')])
      else None)"

definition ex_stringify :: "json \<Rightarrow> string" where
  "ex_stringify v = (case v of JObj kvs \<Rightarrow> ''{...}'' | _ \<Rightarrow> ''[...]'')"

definition ex_friendly :: "error \<Rightarrow> string" where
  "ex_friendly e = (case e of JsError m \<Rightarrow> m | NonError v \<Rightarrow> ''An unexpected error occurred.'')"

definition ex_number :: "real \<Rightarrow> string" where
  "ex_number x = (if x = 0 then ''0'' else if x = 1 then ''1'' else if x = 5 then ''5'' else ''?'')"

definition ex_string_of :: "json option \<Rightarrow> string" where
  "ex_string_of v =
     (case v of
        None \<Rightarrow> ''undefined''
      | Some JNull \<Rightarrow> ''null''
      | Some (JBool b) \<Rightarrow> (if b then ''true'' else ''false'')
      | Some (JNum x) \<Rightarrow> ex_number x
      | Some (JStr s) \<Rightarrow> s
      | Some (JArr xs) \<Rightarrow> ''?''
      | Some (JObj kvs) \<Rightarrow> ''[object Object]'')"

definition ex_profile :: profile_row where
  "ex_profile = \<lparr>membership = ''free'', preferred_image_model = None, credits = 0\<rparr>"

definition ex_settings :: "string \<Rightarrow> real option" where
  "ex_settings k = (if k = ''cost_image_nano_banana'' then Some 1 else None)"

definition ex_env :: agent_env where
  "ex_env =
     \<lparr>prepare = None,
      readAsDataURL = (\<lambda>f. Some ''data:image/png;base64,AAAA''),
      responseStream = Inr ([''On it! '', sentinel @ cat_block @ sentinel], None),
      jsonParse = ex_parse,
      jsonStringify = ex_stringify,
      profileFetch = Inr (Some ex_profile, None),
      settingsFetch = Inr (Some ex_settings, None),
      deductCredits = None,
      generateImage = (\<lambda>p m. Inr (''iVBORw0KGgo='', False)),
      getUserFriendlyError = ex_friendly,
      numberToString = ex_number\<rparr>"


text \<open>The same turn when the model also sends a code body.\<close>

definition ex_code_env :: agent_env where
  "ex_code_env = ex_env\<lparr>responseStream := Inr ([code_response], None)\<rparr>"





definition ex_inp :: agent_input where
  "ex_inp = \<lparr>prompt = ''draw a cat'', input_files = None, project = ''autonomous-project'',
             chat = ''c1'', user = ''u1'', role = None\<rparr>"

definition ex_stored :: "nat \<Rightarrow> msg_draft \<Rightarrow> message" where
  "ex_stored n d =
     \<lparr>msg_id = (if n = 0 then ''row-0'' else ''row-1''),
      created_at = Some ''2023-11-14T22:13:21.000Z'', content = d\<rparr>"

definition ex_hook_env :: "agent_env \<Rightarrow> hook_env" where
  "ex_hook_env aenv =
     \<lparr>dateNowUser = ''1700000000000'', dateNowAi = ''1700000000000'',
      isoNow = ''2023-11-14T22:13:20.000Z'',
      fileToBase64 = (\<lambda>f. Inr ''AAAA''),
      addMessage = (\<lambda>n d. Inr (ex_stored n d)),
      runAgent = runAgent_autonomous aenv,
      updateMessagePlan = None,
      parseJSON = ex_parse,
      stringifyJSON = ex_stringify,
      stringOf = ex_string_of\<rparr>"

definition ex_ctx :: hook_ctx where
  "ex_ctx = \<lparr>supabase = True, auth_user = Some ''u1'', geminiApiKey = Some ''key'',
             profile_role = None\<rparr>"

definition ex_chat :: chat_data where
  "ex_chat = \<lparr>chat_ident = ''c1'', chat_project_id = ''p1'', projects = None\<rparr>"

definition ex_args :: send_args where
  "ex_args = \<lparr>text_arg = ''draw a cat'', files = None, chatToUse = Some ex_chat\<rparr>"

definition ex_state :: hook_state where
  "ex_state = \<lparr>view_messages = [], isLoading = False\<rparr>"



section \<open>The streaming loop: what reaches the user interface\<close>

lemmas stream_eval =
  ui_text_def stream_loop_def stream_chunk_def stream_init_def sentinel_def
  substring_def substringFrom_def Let_def

text \<open>The emitted prefix never gets shorter, whatever the fragments are.\<close>

lemma stream_chunk_monotone:
  "length (streamingBuffer st) \<le> length (streamingBuffer (stream_chunk st chunkText))"
  by (simp add: stream_chunk_def Let_def split: option.splits)

lemma stream_loop_monotone:
  "length (streamingBuffer st) \<le> length (streamingBuffer (stream_loop st chunks))"
proof (induction chunks arbitrary: st)
  case Nil
  show ?case by (simp add: stream_loop_def)
next
  case (Cons c cs)
  have "length (streamingBuffer st) \<le> length (streamingBuffer (stream_chunk st c))"
    by (rule stream_chunk_monotone)
  also have "\<dots> \<le> length (streamingBuffer (stream_loop (stream_chunk st c) cs))"
    by (rule Cons.IH)
  finally show ?case by (simp add: stream_loop_def)
qed

text \<open>
  The text handed to the user interface is always a prefix of the raw response, and it is
  the whole response when the sentinel never appears.
\<close>

lemma indexOf_append_None:
  "indexOf (xs @ ys) pat = None \<Longrightarrow> indexOf xs pat = None"
proof (induction xs)
  case Nil
  then show ?case by (cases ys) (auto split: if_splits)
next
  case (Cons x xs)
  from Cons.prems have np: "\<not> prefix pat (x # xs @ ys)" and r: "indexOf (xs @ ys) pat = None"
    by (auto split: if_splits)
  from np have "\<not> prefix pat (x # xs)"
    by (metis append_Cons prefix_order.trans prefixI)
  with Cons.IH [OF r] show ?case by simp
qed

lemma indexOf_Some_le: "indexOf s pat = Some i \<Longrightarrow> i \<le> length s"
  by (induction s arbitrary: i) (auto split: if_splits)

lemma stream_chunk_inv:
  assumes "stream_inv st"
  shows "stream_inv (stream_chunk st chunkText)"
proof (cases "chunkText = []")
  case True
  with assms show ?thesis by (simp add: stream_chunk_def)
next
  case False
  note ne = False
  from assms have c: "concat (sent st) = streamingBuffer st"
    and p: "prefix (streamingBuffer st) (fullText st)"
    and n: "indexOf (fullText st) sentinel = None \<Longrightarrow> streamingBuffer st = fullText st"
    by (simp_all add: stream_inv_def)
  show ?thesis
  proof (cases "indexOf (fullText st @ chunkText) sentinel")
    case None
    then have "indexOf (fullText st) sentinel = None" by (rule indexOf_append_None)
    then have "streamingBuffer st = fullText st" by (rule n)
    with None ne c show ?thesis by (simp add: stream_chunk_def stream_inv_def Let_def)
  next
    case (Some i)
    then have le: "i \<le> length (fullText st @ chunkText)" by (rule indexOf_Some_le)
    from p obtain r where r: "fullText st = streamingBuffer st @ r" by (auto simp: prefix_def)
    show ?thesis
    proof (cases "length (streamingBuffer st) < i")
      case True
      with Some ne c le r show ?thesis
        by (auto simp: stream_chunk_def stream_inv_def Let_def substring_def substringFrom_def
            take_is_prefix min_def)
    next
      case False
      with Some ne c p le show ?thesis
        by (auto simp: stream_chunk_def stream_inv_def Let_def substring_def min_def)
    qed
  qed
qed

lemma stream_loop_inv: "stream_inv st \<Longrightarrow> stream_inv (stream_loop st chunks)"
  by (induction chunks arbitrary: st) (simp_all add: stream_loop_def stream_chunk_inv)

lemma stream_loop_fullText: "fullText (stream_loop st chunks) = fullText st @ concat chunks"
  by (induction chunks arbitrary: st)
     (simp_all add: stream_loop_def stream_chunk_def Let_def split: option.splits)

lemma ui_text_prefix: "prefix (ui_text chunks) (concat chunks)"
proof -
  have "stream_inv stream_init" by (simp add: stream_inv_def stream_init_def)
  then have "stream_inv (stream_loop stream_init chunks)" by (rule stream_loop_inv)
  then show ?thesis
    using stream_loop_fullText [of stream_init chunks]
    by (simp add: stream_inv_def ui_text_def stream_init_def)
qed

lemma ui_text_no_sentinel:
  assumes "indexOf (concat chunks) sentinel = None"
  shows "ui_text chunks = concat chunks"
proof -
  have "stream_inv stream_init" by (simp add: stream_inv_def stream_init_def)
  then have "stream_inv (stream_loop stream_init chunks)" by (rule stream_loop_inv)
  then show ?thesis
    using stream_loop_fullText [of stream_init chunks] assms
    by (simp add: stream_inv_def ui_text_def stream_init_def)
qed

text \<open>
  Claim C1 (fragmentation invariance of the visible deltas). The loop does not keep it
  when the sentinel is split across two fragments: fed \<open>Hi there\<close>, \<open>! [--ME\<close>,
  \<open>TADATA--]{}[--METADATA--]\<close>, it hands the user interface \<open>Hi there! [--ME\<close>, the
  opening of the sentinel included, while the same response as one fragment gives
  \<open>Hi there! \<close>. The fragments of the specification's own example never hold the
  token \<open>[--METADATA--]\<close>, so all of their text reaches the user interface.
\<close>

theorem split_sentinel_reaches_ui:
  "ui_text [''Hi there'', ''! [--ME'', ''TADATA--]{}[--METADATA--]''] = ''Hi there! [--ME''
   \<and> ui_text [''Hi there! [--METADATA--]{}[--METADATA--]''] = ''Hi there! ''
   \<and> ui_text [''Hi there'', ''! [--ME'', ''TA--]{}[--META--]'']
       = ''Hi there! [--META--]{}[--META--]''"
  by (simp add: stream_eval)

text \<open>
  Claim C2 (the emitted prefix grows only, and never passes the index of the sentinel).
  The first half holds (\<open>stream_loop_monotone\<close>). The second does not: after the same
  three fragments the sentinel is found at index 10 of the buffer, and the emitted
  prefix has 15 characters.
\<close>

theorem emitted_text_passes_sentinel_index:
  "indexOf (fullText (stream_loop stream_init
              [''Hi there'', ''! [--ME'', ''TADATA--]{}[--METADATA--]''])) sentinel = Some 10
   \<and> streamingBuffer (stream_loop stream_init
          [''Hi there'', ''! [--ME'', ''TADATA--]{}[--METADATA--]'']) = ''Hi there! [--ME''
   \<and> length (streamingBuffer (stream_loop stream_init
          [''Hi there'', ''! [--ME'', ''TADATA--]{}[--METADATA--]''])) = 15"
  by (simp add: stream_eval)

section \<open>\<open>handleSendMessage\<close>: the guard\<close>

text \<open>
  Claim C10. When the text is empty or white space only and no file is attached, or when
  \<open>supabase\<close>, the user, the chat or the API key is absent, the call returns
  \<open>{messages: []}\<close> at once (it does return: the result is \<open>Some\<close>): the state is the one it started in (no placeholder, the
  loading flag untouched) and no call has been made (no persistence, no toast).
\<close>

theorem guard_returns_at_once:
  assumes "(trim (text_arg args) = [] \<and> (files args = None \<or> files args = Some []))
           \<or> \<not> supabase ctx \<or> auth_user ctx = None \<or> chatToUse args = None
           \<or> geminiApiKey ctx = None \<or> geminiApiKey ctx = Some []"
  shows "handleSendMessage env ctx args st
           = (st, [], Some \<lparr>messages = [], updatedPlan = None\<rparr>)"
  using assms by (simp add: handleSendMessage_def returns_at_once_def no_messages_def)

theorem guard_returns_at_once_witness:
  "trim (text_arg (ex_args\<lparr>text_arg := ''   ''\<rparr>)) = []
   \<and> files (ex_args\<lparr>text_arg := ''   ''\<rparr>) = None
   \<and> handleSendMessage (ex_hook_env ex_env) ex_ctx (ex_args\<lparr>text_arg := ''   ''\<rparr>) ex_state
       = (ex_state, [], Some \<lparr>messages = [], updatedPlan = None\<rparr>)"
proof -
  have h: "trim (text_arg (ex_args\<lparr>text_arg := ''   ''\<rparr>)) = []"
    by (simp add: trim_def isWhiteSpace_def)
  have f: "files (ex_args\<lparr>text_arg := ''   ''\<rparr>) = None"
    by (simp add: ex_args_def)
  from h f guard_returns_at_once [of "ex_args\<lparr>text_arg := ''   ''\<rparr>" ex_ctx "ex_hook_env ex_env" ex_state]
  show ?thesis by simp
qed

section \<open>Finalisation\<close>

lemma sentinel_not_empty: "sentinel \<noteq> []"
  by (simp add: sentinel_def)

lemma indexOf_None_Cons:
  assumes "indexOf (c # cs) pat = None"
  shows "\<not> prefix pat (c # cs)" and "indexOf cs pat = None"
  using assms by (auto split: if_splits)

lemma metadataMatch_no_sentinel:
  "indexOf full sentinel = None \<Longrightarrow> metadataMatch full = None"
proof (induction full)
  case Nil
  show ?case by simp
next
  case (Cons c cs)
  from Cons.prems have np: "\<not> prefix sentinel (c # cs)" and rest: "indexOf cs sentinel = None"
    by (rule indexOf_None_Cons)+
  from rest have "metadataMatch cs = None" by (rule Cons.IH)
  with np show ?case by (simp add: Let_def)
qed

lemma metadataMatch_two_sentinels:
  assumes "indexOf full sentinel = Some i"
    and "indexOf (drop (i + length sentinel) full) sentinel = Some k"
  shows "metadataMatch full =
           Some (take i full, take k (drop (i + length sentinel) full),
                 drop (i + length sentinel + k + length sentinel) full)"
  using assms
proof (induction full arbitrary: i)
  case Nil
  then show ?case by (simp add: sentinel_not_empty)
next
  case (Cons c cs)
  show ?case
  proof (cases "prefix sentinel (c # cs)")
    case True
    with Cons.prems(1) have i0: "i = 0" by simp
    with Cons.prems(2) have "indexOf (drop (length sentinel) (c # cs)) sentinel = Some k" by simp
    with True i0 show ?thesis by (simp add: Let_def add.commute add.left_commute)
  next
    case False
    with Cons.prems(1) obtain j where j: "indexOf cs sentinel = Some j" and i: "i = Suc j"
      by (auto split: if_splits)
    from Cons.prems(2) i have "indexOf (drop (j + length sentinel) cs) sentinel = Some k" by simp
    with j have "metadataMatch cs =
           Some (take j cs, take k (drop (j + length sentinel) cs),
                 drop (j + length sentinel + k + length sentinel) cs)"
      by (rule Cons.IH)
    with False i show ?thesis by (simp add: Let_def)
  qed
qed

text \<open>
  Claim C7, as amended. For a full response with no occurrence of the sentinel,
  finalisation takes as visible text the entire text with the white space at both of
  its ends trimmed, and the action payload stays null: \<open>imagePrompt\<close>, \<open>code\<close>,
  \<open>language\<close> and \<open>memoryToCreate\<close> are all \<open>null\<close>.
\<close>

theorem no_sentinel_finalize:
  assumes "indexOf full sentinel = None"
  shows "userVisibleText full = trim full \<and> (\<forall>key. parsedMetadata parse full key = JNull)"
  using metadataMatch_no_sentinel [OF assms]
  by (simp add: userVisibleText_def parsedMetadata_def)

text \<open>
  Claim C7 as it is written says that the visible text is the entire text. The response
  \<open>" hi"\<close> has no sentinel, and its visible text is \<open>"hi"\<close>.
\<close>

theorem untrimmed_text_counterexample:
  "indexOf '' hi'' sentinel = None \<and> userVisibleText '' hi'' = ''hi'' \<and> userVisibleText '' hi'' \<noteq> '' hi''"
  by (simp add: userVisibleText_def sentinel_def trim_def isWhiteSpace_def Let_def)

theorem no_sentinel_finalize_witness:
  "indexOf ''Hey there! '' sentinel = None
   \<and> userVisibleText ''Hey there! '' = ''Hey there!''
   \<and> parsedMetadata ex_parse ''Hey there! '' ''imagePrompt'' = JNull"
proof -
  have h: "indexOf ''Hey there! '' sentinel = None" by (simp add: sentinel_def)
  have t: "trim ''Hey there! '' = ''Hey there!''" by (simp add: trim_def isWhiteSpace_def)
  from h t no_sentinel_finalize [OF h, of ex_parse] show ?thesis by simp
qed

lemma dispatch_null_payload:
  assumes "\<And>key. parsedMetadata (jsonParse env) full key = JNull"
  shows "dispatch env inp full =
           (if userVisibleText full \<noteq> []
            then ([], Inr (single (attach_raw inp full (ai_draft inp (userVisibleText full)))))
            else ([], Inl (JsError ''The AI returned an empty response.'')))"
  by (simp add: dispatch_def assms memory_requests_def nonBlankString_def)

text \<open>
  Claim C6, as amended. Let the sentinel occur first at index \<open>i\<close> and next, after that
  occurrence, \<open>k\<close> characters further, and let \<open>JSON.parse\<close> fail on the trimmed text
  between the two. Then the failure is swallowed: the visible text is the text without
  the block, trimmed; every field of the action payload is \<open>null\<close>; no memory, code
  or image action is performed (no call is made); and the outcome is one plain-text draft
  with the visible text when that is not empty. When it is empty, the turn throws
  \<open>The AI returned an empty response.\<close>
\<close>

theorem malformed_block_is_ignored:
  assumes "indexOf full sentinel = Some i"
    and "indexOf (drop (i + length sentinel) full) sentinel = Some k"
    and "jsonParse env (trim (take k (drop (i + length sentinel) full))) = None"
  shows "userVisibleText full
           = trim (take i full @ drop (i + length sentinel + k + length sentinel) full)
         \<and> (\<forall>key. parsedMetadata (jsonParse env) full key = JNull)
         \<and> dispatch env inp full =
             (if userVisibleText full \<noteq> []
              then ([], Inr (single (attach_raw inp full (ai_draft inp (userVisibleText full)))))
              else ([], Inl (JsError ''The AI returned an empty response.'')))"
proof -
  have m: "metadataMatch full =
             Some (take i full, take k (drop (i + length sentinel) full),
                   drop (i + length sentinel + k + length sentinel) full)"
    using assms(1,2) by (rule metadataMatch_two_sentinels)
  have v: "userVisibleText full
             = trim (take i full @ drop (i + length sentinel + k + length sentinel) full)"
    by (simp add: userVisibleText_def m)
  have p: "parsedMetadata (jsonParse env) full key = JNull" for key
    by (simp add: parsedMetadata_def m assms(3))
  from v p dispatch_null_payload [of env full inp] show ?thesis by simp
qed

lemma ex_bad_block:
  "indexOf ''Here you go! [--METADATA--]{oops[--METADATA--]'' sentinel = Some 13"
  "indexOf (drop (13 + length sentinel) ''Here you go! [--METADATA--]{oops[--METADATA--]'') sentinel = Some 5"
  "jsonParse ex_env (trim (take 5 (drop (13 + length sentinel) ''Here you go! [--METADATA--]{oops[--METADATA--]''))) = None"
  by (simp_all add: sentinel_def ex_env_def ex_parse_def trim_def isWhiteSpace_def cat_block_def code_block_def quoted_def)

theorem malformed_block_is_ignored_witness:
  "indexOf ''Here you go! [--METADATA--]{oops[--METADATA--]'' sentinel = Some 13
   \<and> userVisibleText ''Here you go! [--METADATA--]{oops[--METADATA--]'' = ''Here you go!''
   \<and> dispatch ex_env ex_inp ''Here you go! [--METADATA--]{oops[--METADATA--]''
       = ([], Inr (single (ai_draft ex_inp ''Here you go!'')))"
proof -
  have t: "trim (take 13 ''Here you go! [--METADATA--]{oops[--METADATA--]''
             @ drop (13 + length sentinel + 5 + length sentinel)
                 ''Here you go! [--METADATA--]{oops[--METADATA--]'') = ''Here you go!''"
    by (simp add: sentinel_def trim_def isWhiteSpace_def)
  have r: "attach_raw ex_inp full d = d" for full d
    by (simp add: attach_raw_def ex_inp_def)
  from malformed_block_is_ignored [OF ex_bad_block, of ex_inp] t r ex_bad_block(1)
  show ?thesis by simp
qed

text \<open>
  Claim C6 as it is written says that the visible text is the text with the block
  removed and that the turn completes normally with a plain-text outcome. For the
  response \<open>" [--METADATA--]{oops[--METADATA--]"\<close> the text with the block removed is
  \<open>" "\<close>, the visible text is empty, the \<open>try\<close> block throws, and the message of the
  turn is the error notice of the \<open>catch\<close> block.
\<close>

theorem malformed_block_empty_text_counterexample:
  "indexOf '' [--METADATA--]{oops[--METADATA--]'' sentinel = Some 1
   \<and> indexOf (drop 15 '' [--METADATA--]{oops[--METADATA--]'') sentinel = Some 5
   \<and> ex_parse (trim (take 5 (drop 15 '' [--METADATA--]{oops[--METADATA--]''))) = None
   \<and> take 1 '' [--METADATA--]{oops[--METADATA--]'' @ drop 34 '' [--METADATA--]{oops[--METADATA--]'' = '' ''
   \<and> userVisibleText '' [--METADATA--]{oops[--METADATA--]'' = []
   \<and> agent_try (ex_env\<lparr>responseStream := Inr (['' [--METADATA--]{oops[--METADATA--]''], None)\<rparr>) ex_inp
       = ([StreamChunk '' ''], Some (Inl (JsError ''The AI returned an empty response.'')))
   \<and> runAutonomousAgent (ex_env\<lparr>responseStream := Inr (['' [--METADATA--]{oops[--METADATA--]''], None)\<rparr>) ex_inp
       = ([StreamChunk '' ''],
          Some (Inr (single (ai_draft ex_inp ''An error occurred: The AI returned an empty response.''))))"
  by (simp add: sentinel_def ex_env_def ex_parse_def trim_def isWhiteSpace_def cat_block_def
      code_block_def quoted_def userVisibleText_def Let_def runAutonomousAgent_def agent_try_def
      run_stream_def stream_loop_def stream_chunk_def stream_init_def substring_def
      substringFrom_def dispatch_def parsedMetadata_def memory_requests_def nonBlankString_def
      agent_catch_def ex_friendly_def files_read_def ex_inp_def)

section \<open>The calls of the agent\<close>

lemma run_stream_events:
  "\<not> list_ex is_generation (fst (run_stream env inp))
   \<and> \<not> list_ex is_deduction (fst (run_stream env inp))"
  by (simp add: run_stream_def Let_def list_ex_iff is_generation_def is_deduction_def
      split: option.splits sum.splits prod.splits)

lemma saveMemories_events:
  "\<not> list_ex is_generation (fst (saveMemories uid mems))
   \<and> \<not> list_ex is_deduction (fst (saveMemories uid mems))"
  by (induction mems) (auto simp: is_generation_def is_deduction_def split: prod.splits)

lemma memory_requests_events:
  "\<not> list_ex is_generation (fst (memory_requests inp v))
   \<and> \<not> list_ex is_deduction (fst (memory_requests inp v))"
  using saveMemories_events by (simp add: memory_requests_def split: json.splits)

text \<open>The agent from the stream on: the try block continues with dispatch.\<close>

lemma agent_try_dispatch:
  assumes "run_stream env inp = (evs, Some (Inr full))"
  shows "agent_try env inp
           = (evs @ fst (dispatch env inp full), Some (snd (dispatch env inp full)))"
  using assms by (simp add: agent_try_def split: prod.splits)

lemma agent_try_no_dispatch:
  assumes "run_stream env inp = (evs, r)" and "\<And>full. r \<noteq> Some (Inr full)"
  shows "fst (agent_try env inp) = evs"
  using assms by (simp add: agent_try_def split: option.splits sum.splits)

lemma dispatch_image:
  assumes "memory_requests inp (parsedMetadata (jsonParse env) full ''memoryToCreate'') = (mem_evs, None)"
    and "nonBlankString (parsedMetadata (jsonParse env) full ''code'') = None"
    and "nonBlankString (parsedMetadata (jsonParse env) full ''imagePrompt'') = Some imagePrompt"
  shows "dispatch env inp full =
           (mem_evs @ fst (image_branch env inp full (userVisibleText full) imagePrompt),
            snd (image_branch env inp full (userVisibleText full) imagePrompt))"
  using assms by (simp add: dispatch_def Let_def split: prod.splits)

lemma dispatch_code:
  assumes "memory_requests inp (parsedMetadata (jsonParse env) full ''memoryToCreate'') = (mem_evs, None)"
    and "nonBlankString (parsedMetadata (jsonParse env) full ''code'') = Some c"
  shows "dispatch env inp full =
           (mem_evs,
            Inr (single (attach_raw inp full
                   ((ai_draft inp (userVisibleText full))
                      \<lparr>code := Some (trim c),
                       language :=
                         Some (if truthy (parsedMetadata (jsonParse env) full ''language'')
                               then parsedMetadata (jsonParse env) full ''language''
                               else JStr ''plaintext'')\<rparr>))))"
  using assms by (simp add: dispatch_def Let_def)

lemma dispatch_text:
  assumes "memory_requests inp (parsedMetadata (jsonParse env) full ''memoryToCreate'') = (mem_evs, None)"
    and "nonBlankString (parsedMetadata (jsonParse env) full ''code'') = None"
    and "nonBlankString (parsedMetadata (jsonParse env) full ''imagePrompt'') = None"
  shows "dispatch env inp full =
           (if userVisibleText full \<noteq> []
            then (mem_evs, Inr (single (attach_raw inp full (ai_draft inp (userVisibleText full)))))
            else (mem_evs, Inl (JsError ''The AI returned an empty response.'')))"
  using assms by (simp add: dispatch_def Let_def)

lemma dispatch_memory_throws:
  assumes "memory_requests inp (parsedMetadata (jsonParse env) full ''memoryToCreate'') = (mem_evs, Some e)"
  shows "dispatch env inp full = (mem_evs, Inl e)"
  using assms by (simp add: dispatch_def Let_def)

lemma image_branch_shortfall:
  assumes "profileFetch env = Inr (Some p, None)"
    and "membership p \<noteq> ''admin''"
    and "settingsFetch env = Inr (Some tbl, None)"
    and "credits p < lookup_cost tbl (modelToUse p)"
  shows "image_branch env inp full visible imagePrompt =
           (image_start env inp visible @ [FetchSettings],
            Inr (single (ai_draft inp
                   (shortfall_notice (numberToString env) (lookup_cost tbl (modelToUse p))
                      (credits p)))))"
  using assms by (simp add: image_branch_def credit_gate_def Let_def)

lemma image_branch_authorized:
  assumes "profileFetch env = Inr (Some p, None)"
    and "membership p \<noteq> ''admin''"
    and "settingsFetch env = Inr (Some tbl, None)"
    and "\<not> credits p < lookup_cost tbl (modelToUse p)"
  shows "image_branch env inp full visible imagePrompt =
           (case deductCredits env of
              Some e \<Rightarrow>
                (image_start env inp visible
                   @ [FetchSettings, DeductCredits (user inp) (lookup_cost tbl (modelToUse p))],
                 Inl e)
            | None \<Rightarrow>
                (image_start env inp visible
                   @ [FetchSettings, DeductCredits (user inp) (lookup_cost tbl (modelToUse p)),
                      GenerateImage imagePrompt (modelToUse p)],
                 snd (generate_and_build env inp full visible imagePrompt (modelToUse p))))"
  using assms
  by (simp add: image_branch_def credit_gate_def Let_def generate_and_build_def
      split: option.splits sum.splits prod.splits)

lemma image_branch_admin:
  assumes "profileFetch env = Inr (Some p, None)"
    and "membership p = ''admin''"
  shows "image_branch env inp full visible imagePrompt =
           (image_start env inp visible @ [GenerateImage imagePrompt (modelToUse p)],
            snd (generate_and_build env inp full visible imagePrompt (modelToUse p)))"
  using assms
  by (simp add: image_branch_def Let_def generate_and_build_def
      split: option.splits sum.splits prod.splits)

text \<open>The \<open>catch\<close> block turns every error of the \<open>try\<close> block into a result.\<close>

lemma catch_resolved:
  "runAutonomousAgent env inp =
     (fst (agent_try env inp),
      case snd (agent_try env inp) of
        None \<Rightarrow> None
      | Some (Inl e) \<Rightarrow>
          Some (Inr (single (ai_draft inp (''An error occurred: '' @ getUserFriendlyError env e))))
      | Some (Inr r) \<Rightarrow> Some (Inr r))"
  by (simp add: runAutonomousAgent_def agent_catch_def split: prod.splits sum.splits option.splits)

lemma image_start_events:
  "\<not> list_ex is_generation (image_start env inp visible)
   \<and> \<not> list_ex is_deduction (image_start env inp visible)"
  by (simp add: image_start_def is_generation_def is_deduction_def)

text \<open>
  A file whose read fails leaves the agent waiting: its promise never settles, and no call
  has been made.
\<close>

lemma failed_read_never_settles:
  assumes "prepare env = None" and "\<not> files_read env (input_files inp)"
  shows "runAutonomousAgent env inp = ([], None)"
  using assms by (simp add: runAutonomousAgent_def agent_try_def run_stream_def)

text \<open>
  With a balance below the cost, whatever the response is, no call goes to the image
  backend or to the credit deduction.
\<close>

lemma dispatch_events_shortfall:
  assumes prof: "profileFetch env = Inr (Some p, None)"
    and nonadmin: "membership p \<noteq> ''admin''"
    and settings: "settingsFetch env = Inr (Some tbl, None)"
    and short: "credits p < lookup_cost tbl (modelToUse p)"
  shows "\<not> list_ex is_generation (fst (dispatch env inp full))
         \<and> \<not> list_ex is_deduction (fst (dispatch env inp full))"
proof -
  obtain mem_evs err where m:
    "memory_requests inp (parsedMetadata (jsonParse env) full ''memoryToCreate'') = (mem_evs, err)"
    by (cases "memory_requests inp (parsedMetadata (jsonParse env) full ''memoryToCreate'')")
  have me: "\<not> list_ex is_generation mem_evs \<and> \<not> list_ex is_deduction mem_evs"
    using memory_requests_events [of inp "parsedMetadata (jsonParse env) full ''memoryToCreate''"] m
    by simp
  have fs: "\<not> is_generation FetchSettings \<and> \<not> is_deduction FetchSettings"
    by (simp add: is_generation_def is_deduction_def)
  show ?thesis
  proof (cases err)
    case (Some e)
    with m me show ?thesis by (simp add: dispatch_memory_throws)
  next
    case None
    note m' = m [unfolded None]
    show ?thesis
    proof (cases "nonBlankString (parsedMetadata (jsonParse env) full ''code'')")
      case (Some c)
      with me show ?thesis by (simp add: dispatch_code [OF m' Some])
    next
      case nocode: None
      show ?thesis
      proof (cases "nonBlankString (parsedMetadata (jsonParse env) full ''imagePrompt'')")
        case None
        with me show ?thesis by (simp add: dispatch_text [OF m' nocode None])
      next
        case (Some imagePrompt)
        from me fs image_start_events [of env inp "userVisibleText full"] show ?thesis
          by (simp add: dispatch_image [OF m' nocode Some]
              image_branch_shortfall [OF prof nonadmin settings short])
      qed
    qed
  qed
qed

lemma agent_events_shortfall:
  assumes prof: "profileFetch env = Inr (Some p, None)"
    and nonadmin: "membership p \<noteq> ''admin''"
    and settings: "settingsFetch env = Inr (Some tbl, None)"
    and short: "credits p < lookup_cost tbl (modelToUse p)"
  shows "\<not> list_ex is_generation (fst (runAutonomousAgent env inp))
         \<and> \<not> list_ex is_deduction (fst (runAutonomousAgent env inp))"
proof -
  obtain evs r where s: "run_stream env inp = (evs, r)" by (cases "run_stream env inp")
  have se: "\<not> list_ex is_generation evs \<and> \<not> list_ex is_deduction evs"
    using run_stream_events [of env inp] s by simp
  have "\<not> list_ex is_generation (fst (agent_try env inp))
        \<and> \<not> list_ex is_deduction (fst (agent_try env inp))"
  proof (cases "\<exists>full. r = Some (Inr full)")
    case True
    then obtain full where r: "r = Some (Inr full)" by blast
    from se dispatch_events_shortfall [OF prof nonadmin settings short, of inp full]
    show ?thesis by (simp add: agent_try_dispatch [OF s [unfolded r]])
  next
    case False
    then have "fst (agent_try env inp) = evs" by (intro agent_try_no_dispatch [OF s]) blast
    with se show ?thesis by simp
  qed
  then show ?thesis by (simp add: catch_resolved)
qed

lemmas ex_eval =
  ex_env_def ex_inp_def ex_parse_def ex_stringify_def ex_friendly_def ex_profile_def
  ex_settings_def ex_number_def cat_block_def code_block_def quoted_def sentinel_def trim_def
  isWhiteSpace_def

lemmas agent_eval =
  run_stream_def files_read_def stream_loop_def stream_chunk_def stream_init_def substring_def
  substringFrom_def parsedMetadata_def userVisibleText_def memory_requests_def
  nonBlankString_def property_def Let_def

text \<open>
  Claim C3, as amended. For a user who is not an administrator and whose re-fetched
  balance is below the cost looked up for the chosen model, no turn calls the image
  backend or the credit deduction. When the turn reaches the image case (the stream
  ends, the memory requests do not throw, there is no code body and the image prompt is
  not blank), the agent resolves with exactly one AI message, which carries nothing but
  the shortfall notice as its text. With balance 0 and cost 1 the text is
  \<open>Oops! You need 1 credits to generate an image, but you only have 0.\<close>
\<close>

theorem shortfall_turn:
  assumes prof: "profileFetch env = Inr (Some p, None)"
    and nonadmin: "membership p \<noteq> ''admin''"
    and settings: "settingsFetch env = Inr (Some tbl, None)"
    and short: "credits p < lookup_cost tbl (modelToUse p)"
  shows "\<not> list_ex is_generation (fst (runAutonomousAgent env inp))
         \<and> \<not> list_ex is_deduction (fst (runAutonomousAgent env inp))
         \<and> (run_stream env inp = (evs, Some (Inr full))
              \<and> memory_requests inp (parsedMetadata (jsonParse env) full ''memoryToCreate'')
                  = (mem_evs, None)
              \<and> nonBlankString (parsedMetadata (jsonParse env) full ''code'') = None
              \<and> nonBlankString (parsedMetadata (jsonParse env) full ''imagePrompt'')
                  = Some imagePrompt
            \<longrightarrow> runAutonomousAgent env inp =
                  (evs @ mem_evs @ image_start env inp (userVisibleText full) @ [FetchSettings],
                   Some (Inr \<lparr>messages =
                                [\<lparr>project_id = project inp, chat_id = chat inp, user_id = None,
                                  sender = Ai,
                                  text = Text (''Oops! You need ''
                                           @ numberToString env (lookup_cost tbl (modelToUse p))
                                           @ '' credits to generate an image, but you only have ''
                                           @ numberToString env (credits p) @ ''.''),
                                  code = None, language = None, image_base64 = None,
                                  imageStatus = None, raw_ai_response = None, plan = None\<rparr>],
                              updatedPlan = None\<rparr>)))"
proof (intro conjI impI)
  show "\<not> list_ex is_generation (fst (runAutonomousAgent env inp))"
    using agent_events_shortfall [OF prof nonadmin settings short] by blast
  show "\<not> list_ex is_deduction (fst (runAutonomousAgent env inp))"
    using agent_events_shortfall [OF prof nonadmin settings short] by blast
next
  assume a: "run_stream env inp = (evs, Some (Inr full))
              \<and> memory_requests inp (parsedMetadata (jsonParse env) full ''memoryToCreate'')
                  = (mem_evs, None)
              \<and> nonBlankString (parsedMetadata (jsonParse env) full ''code'') = None
              \<and> nonBlankString (parsedMetadata (jsonParse env) full ''imagePrompt'')
                  = Some imagePrompt"
  then have stream: "run_stream env inp = (evs, Some (Inr full))"
    and mem: "memory_requests inp (parsedMetadata (jsonParse env) full ''memoryToCreate'')
                = (mem_evs, None)"
    and nocode: "nonBlankString (parsedMetadata (jsonParse env) full ''code'') = None"
    and img: "nonBlankString (parsedMetadata (jsonParse env) full ''imagePrompt'') = Some imagePrompt"
    by blast+
  note br = image_branch_shortfall [OF prof nonadmin settings short,
      of inp full "userVisibleText full" imagePrompt]
  note d = dispatch_image [OF mem nocode img]
  note t = agent_try_dispatch [OF stream]
  show "runAutonomousAgent env inp =
                  (evs @ mem_evs @ image_start env inp (userVisibleText full) @ [FetchSettings],
                   Some (Inr \<lparr>messages =
                                [\<lparr>project_id = project inp, chat_id = chat inp, user_id = None,
                                  sender = Ai,
                                  text = Text (''Oops! You need ''
                                           @ numberToString env (lookup_cost tbl (modelToUse p))
                                           @ '' credits to generate an image, but you only have ''
                                           @ numberToString env (credits p) @ ''.''),
                                  code = None, language = None, image_base64 = None,
                                  imageStatus = None, raw_ai_response = None, plan = None\<rparr>],
                              updatedPlan = None\<rparr>))"
    by (simp add: catch_resolved t d br single_def ai_draft_def shortfall_notice_def)
qed

lemma ex_turn:
  "profileFetch ex_env = Inr (Some ex_profile, None)"
  "membership ex_profile \<noteq> ''admin''"
  "settingsFetch ex_env = Inr (Some ex_settings, None)"
  "credits ex_profile < lookup_cost ex_settings (modelToUse ex_profile)"
  by (simp_all add: ex_env_def ex_profile_def lookup_cost_def modelToUse_def ex_settings_def)

lemma ex_turn_image:
  "run_stream ex_env ex_inp = ([StreamChunk ''On it! ''], Some (Inr cat_response))
   \<and> memory_requests ex_inp (parsedMetadata (jsonParse ex_env) cat_response ''memoryToCreate'')
       = ([], None)
   \<and> nonBlankString (parsedMetadata (jsonParse ex_env) cat_response ''code'') = None
   \<and> nonBlankString (parsedMetadata (jsonParse ex_env) cat_response ''imagePrompt'')
       = Some ''a cat''"
  by (simp add: cat_response_def ex_eval agent_eval)

theorem shortfall_turn_witness:
  "membership ex_profile \<noteq> ''admin''
   \<and> credits ex_profile = 0
   \<and> lookup_cost ex_settings (modelToUse ex_profile) = 1
   \<and> snd (runAutonomousAgent ex_env ex_inp) =
       Some (Inr \<lparr>messages =
                    [\<lparr>project_id = ''autonomous-project'', chat_id = ''c1'', user_id = None,
                      sender = Ai,
                      text = Text ''Oops! You need 1 credits to generate an image, but you only have 0.'',
                      code = None, language = None, image_base64 = None, imageStatus = None,
                      raw_ai_response = None, plan = None\<rparr>],
                  updatedPlan = None\<rparr>)
   \<and> \<not> list_ex is_generation (fst (runAutonomousAgent ex_env ex_inp))
   \<and> \<not> list_ex is_deduction (fst (runAutonomousAgent ex_env ex_inp))"
proof -
  have c: "credits ex_profile = 0" by (simp add: ex_profile_def)
  have l: "lookup_cost ex_settings (modelToUse ex_profile) = 1"
    by (simp add: lookup_cost_def modelToUse_def ex_profile_def ex_settings_def)
  have n: "numberToString ex_env 1 = ''1''" "numberToString ex_env 0 = ''0''"
    by (simp_all add: ex_env_def ex_number_def)
  have i: "project ex_inp = ''autonomous-project''" "chat ex_inp = ''c1''"
    by (simp_all add: ex_inp_def)
  note th = shortfall_turn [OF ex_turn,
      of ex_inp "[StreamChunk ''On it! '']" cat_response "[]" "''a cat''"]
  from th [THEN conjunct2, THEN conjunct2, rule_format, OF ex_turn_image]
  have r: "snd (runAutonomousAgent ex_env ex_inp) =
       Some (Inr \<lparr>messages =
                    [\<lparr>project_id = ''autonomous-project'', chat_id = ''c1'', user_id = None,
                      sender = Ai,
                      text = Text ''Oops! You need 1 credits to generate an image, but you only have 0.'',
                      code = None, language = None, image_base64 = None, imageStatus = None,
                      raw_ai_response = None, plan = None\<rparr>],
                  updatedPlan = None\<rparr>)"
    by (simp add: c l n i)
  from ex_turn(2) c l r th [THEN conjunct1] th [THEN conjunct2, THEN conjunct1]
  show ?thesis by blast
qed

text \<open>
  Claim C3 as it is written gives the shortfall notice to every turn whose payload
  requests an image. In the example turn with a code body next to the image prompt, for
  the same user with balance 0 and cost 1, the one message is the code message.
\<close>

theorem code_before_shortfall_counterexample:
  "profileFetch ex_code_env = Inr (Some ex_profile, None)
   \<and> membership ex_profile \<noteq> ''admin''
   \<and> settingsFetch ex_code_env = Inr (Some ex_settings, None)
   \<and> credits ex_profile = 0
   \<and> lookup_cost ex_settings (modelToUse ex_profile) = 1
   \<and> nonBlankString (parsedMetadata (jsonParse ex_code_env) code_response ''imagePrompt'')
       = Some ''a cat''
   \<and> runAutonomousAgent ex_code_env ex_inp =
       ([StreamChunk ''Here: ''],
        Some (Inr \<lparr>messages =
                     [\<lparr>project_id = ''autonomous-project'', chat_id = ''c1'', user_id = None,
                       sender = Ai, text = Text ''Here:'', code = Some ''print(1)'',
                       language = Some (JStr ''plaintext''), image_base64 = None,
                       imageStatus = None, raw_ai_response = None, plan = None\<rparr>],
                   updatedPlan = None\<rparr>))"
  by (simp add: ex_code_env_def code_response_def ex_eval agent_eval lookup_cost_def
      modelToUse_def runAutonomousAgent_def agent_try_def dispatch_def single_def ai_draft_def
      attach_raw_def truthy_def)

section \<open>Credit deduction and image generation\<close>

text \<open>
  Claim C8. Take a turn that reaches the image case for a user who is not an
  administrator and whose balance covers the cost. Then the calls of the agent end with
  the read of the settings, the credit deduction and, only once the deduction has
  resolved, the image generation. Nothing follows the generation whatever its outcome:
  when it fails, the deduction stands and the turn resolves with the error notice.
\<close>

theorem deduction_precedes_generation:
  assumes stream: "run_stream env inp = (evs, Some (Inr full))"
    and mem: "memory_requests inp (parsedMetadata (jsonParse env) full ''memoryToCreate'') = (mem_evs, None)"
    and nocode: "nonBlankString (parsedMetadata (jsonParse env) full ''code'') = None"
    and img: "nonBlankString (parsedMetadata (jsonParse env) full ''imagePrompt'') = Some imagePrompt"
    and prof: "profileFetch env = Inr (Some p, None)"
    and nonadmin: "membership p \<noteq> ''admin''"
    and settings: "settingsFetch env = Inr (Some tbl, None)"
    and enough: "\<not> credits p < lookup_cost tbl (modelToUse p)"
  shows "fst (runAutonomousAgent env inp) =
           evs @ mem_evs @ image_start env inp (userVisibleText full)
             @ [FetchSettings, DeductCredits (user inp) (lookup_cost tbl (modelToUse p))]
             @ (case deductCredits env of
                  Some e \<Rightarrow> []
                | None \<Rightarrow> [GenerateImage imagePrompt (modelToUse p)])
         \<and> (deductCredits env = None \<and> generateImage env imagePrompt (modelToUse p) = Inl err
              \<longrightarrow> snd (runAutonomousAgent env inp) =
                    Some (Inr \<lparr>messages =
                                 [ai_draft inp
                                    (''An error occurred: '' @ getUserFriendlyError env err)],
                               updatedPlan = None\<rparr>))"
proof -
  note br = image_branch_authorized [OF prof nonadmin settings enough, of inp full "userVisibleText full" imagePrompt]
  note d = dispatch_image [OF mem nocode img]
  note t = agent_try_dispatch [OF stream]
  show ?thesis
    by (simp add: catch_resolved t d br generate_and_build_def single_def
        split: option.splits sum.splits prod.splits)
qed

theorem deduction_precedes_generation_witness:
  "\<not> credits (ex_profile\<lparr>credits := 5\<rparr>) < lookup_cost ex_settings (modelToUse (ex_profile\<lparr>credits := 5\<rparr>))
   \<and> fst (runAutonomousAgent
            (ex_env\<lparr>profileFetch := Inr (Some (ex_profile\<lparr>credits := 5\<rparr>), None),
                    generateImage := (\<lambda>p m. Inl (JsError ''Both image models failed.''))\<rparr>) ex_inp)
       = [StreamChunk ''On it! '', StreamChunk ''{...}'', FetchProfile ''u1'', FetchSettings,
          DeductCredits ''u1'' 1, GenerateImage ''a cat'' ''nano_banana'']
   \<and> snd (runAutonomousAgent
            (ex_env\<lparr>profileFetch := Inr (Some (ex_profile\<lparr>credits := 5\<rparr>), None),
                    generateImage := (\<lambda>p m. Inl (JsError ''Both image models failed.''))\<rparr>) ex_inp)
       = Some (Inr \<lparr>messages = [ai_draft ex_inp ''An error occurred: Both image models failed.''],
                    updatedPlan = None\<rparr>)"
proof -
  let ?p = "ex_profile\<lparr>credits := 5\<rparr>"
  let ?env = "ex_env\<lparr>profileFetch := Inr (Some ?p, None),
                     generateImage := (\<lambda>p m. Inl (JsError ''Both image models failed.''))\<rparr>"
  let ?full = "''On it! '' @ sentinel @ cat_block @ sentinel"
  have h1: "run_stream ?env ex_inp = ([StreamChunk ''On it! ''], Some (Inr ?full))"
    by (simp add: ex_eval agent_eval)
  have h2: "memory_requests ex_inp (parsedMetadata (jsonParse ?env) ?full ''memoryToCreate'') = ([], None)"
    by (simp add: ex_eval agent_eval)
  have h3: "nonBlankString (parsedMetadata (jsonParse ?env) ?full ''code'') = None"
    by (simp add: ex_eval agent_eval)
  have h4: "nonBlankString (parsedMetadata (jsonParse ?env) ?full ''imagePrompt'') = Some ''a cat''"
    by (simp add: ex_eval agent_eval)
  have h5: "profileFetch ?env = Inr (Some ?p, None)" by simp
  have h6: "membership ?p \<noteq> ''admin''" by (simp add: ex_profile_def)
  have h7: "settingsFetch ?env = Inr (Some ex_settings, None)" by (simp add: ex_env_def)
  have l: "lookup_cost ex_settings (modelToUse ?p) = 1"
    by (simp add: lookup_cost_def modelToUse_def ex_profile_def ex_settings_def)
  have h8: "\<not> credits ?p < lookup_cost ex_settings (modelToUse ?p)"
    by (simp add: l)
  have m: "modelToUse ?p = ''nano_banana''" by (simp add: modelToUse_def ex_profile_def)
  have d: "deductCredits ?env = None" by (simp add: ex_env_def)
  have g: "generateImage ?env ''a cat'' (modelToUse ?p) = Inl (JsError ''Both image models failed.'')"
    by simp
  have s: "image_start ?env ex_inp v = [StreamChunk ''{...}'', FetchProfile ''u1'']" for v
    by (simp add: image_start_def ex_env_def ex_stringify_def ex_inp_def)
  have l': "lookup_cost ex_settings ''nano_banana'' = 1"
    by (simp add: lookup_cost_def ex_settings_def)
  have f: "getUserFriendlyError ?env (JsError ''Both image models failed.'') = ''Both image models failed.''"
    by (simp add: ex_env_def ex_friendly_def)
  have u: "user ex_inp = ''u1''" by (simp add: ex_inp_def)
  note th = deduction_precedes_generation [OF h1 h2 h3 h4 h5 h6 h7 h8, of "JsError ''Both image models failed.''"]
  from th [THEN conjunct1] have a: "fst (runAutonomousAgent ?env ex_inp)
       = [StreamChunk ''On it! '', StreamChunk ''{...}'', FetchProfile ''u1'', FetchSettings,
          DeductCredits ''u1'' 1, GenerateImage ''a cat'' ''nano_banana'']"
    by (simp add: l' m d s u)
  from th [THEN conjunct2] d g have b: "snd (runAutonomousAgent ?env ex_inp)
       = Some (Inr \<lparr>messages = [ai_draft ex_inp ''An error occurred: Both image models failed.''],
                    updatedPlan = None\<rparr>)"
    by (simp add: ex_env_def ex_friendly_def)
  from h8 a b show ?thesis by blast
qed

section \<open>Errors inside the agent\<close>


lemma thrown_in_dispatch:
  assumes stream: "run_stream env inp = (evs, Some (Inr full))"
  shows memory_failure:
      "memory_requests inp (parsedMetadata (jsonParse env) full ''memoryToCreate'') = (mem_evs, Some e)
         \<Longrightarrow> snd (agent_try env inp) = Some (Inl e)"
    and empty_response:
      "memory_requests inp (parsedMetadata (jsonParse env) full ''memoryToCreate'') = (mem_evs, None)
         \<Longrightarrow> nonBlankString (parsedMetadata (jsonParse env) full ''code'') = None
         \<Longrightarrow> nonBlankString (parsedMetadata (jsonParse env) full ''imagePrompt'') = None
         \<Longrightarrow> userVisibleText full = []
         \<Longrightarrow> snd (agent_try env inp) = Some (Inl (JsError ''The AI returned an empty response.''))"
    and image_failure:
      "memory_requests inp (parsedMetadata (jsonParse env) full ''memoryToCreate'') = (mem_evs, None)
         \<Longrightarrow> nonBlankString (parsedMetadata (jsonParse env) full ''code'') = None
         \<Longrightarrow> nonBlankString (parsedMetadata (jsonParse env) full ''imagePrompt'') = Some imagePrompt
         \<Longrightarrow> snd (image_branch env inp full (userVisibleText full) imagePrompt) = Inl e
         \<Longrightarrow> snd (agent_try env inp) = Some (Inl e)"
  by (simp_all add: agent_try_dispatch [OF stream] dispatch_memory_throws dispatch_text
      dispatch_image)




section \<open>The priority of the actions\<close>

lemma dispatch_generated:
  assumes mem: "memory_requests inp (parsedMetadata (jsonParse env) full ''memoryToCreate'') = (mem_evs, None)"
    and nocode: "nonBlankString (parsedMetadata (jsonParse env) full ''code'') = None"
    and img: "nonBlankString (parsedMetadata (jsonParse env) full ''imagePrompt'') = Some imagePrompt"
    and prof: "profileFetch env = Inr (Some p, None)"
    and auth: "membership p = ''admin''
               \<or> (settingsFetch env = Inr (Some tbl, None)
                  \<and> \<not> credits p < lookup_cost tbl (modelToUse p) \<and> deductCredits env = None)"
    and gen: "generateImage env imagePrompt (modelToUse p) = Inr (imageBase64, fallbackOccurred)"
  shows "list_ex is_generation (fst (dispatch env inp full))
         \<and> snd (dispatch env inp full) =
             Inr \<lparr>messages =
                    [attach_raw inp full
                       ((ai_draft inp (if fallbackOccurred then userVisibleText full @ fallback_note
                                       else userVisibleText full))
                          \<lparr>image_base64 := Some imageBase64, imageStatus := Some ''complete''\<rparr>)],
                  updatedPlan = None\<rparr>"
proof (cases "membership p = ''admin''")
  case True
  note br = image_branch_admin [OF prof True, of inp full "userVisibleText full" imagePrompt]
  show ?thesis
    by (simp add: dispatch_image [OF mem nocode img] br generate_and_build_def gen single_def
        is_generation_def)
next
  case False
  with auth have s: "settingsFetch env = Inr (Some tbl, None)"
    and e: "\<not> credits p < lookup_cost tbl (modelToUse p)" and d: "deductCredits env = None"
    by blast+
  note br = image_branch_authorized [OF prof False s e, of inp full "userVisibleText full" imagePrompt]
  show ?thesis
    by (simp add: dispatch_image [OF mem nocode img] br d generate_and_build_def gen single_def
        is_generation_def)
qed

text \<open>
  Claim C5, as amended. Once the memory requests are issued, the one draft is chosen by
  strict priority. With a non-blank code body it carries the visible text, the trimmed
  code and the language (\<open>plaintext\<close> when none is given), and no image is requested,
  whatever the image prompt. Else, with a non-blank image prompt, image generation is
  requested subject to the credit gate: for an administrator, or for a user whose balance
  covers the cost and whose deduction resolved, when the generation resolves the draft
  carries the visible text (with the fallback note when the fallback was used), the image
  and the status \<open>complete\<close>. Else, when the visible text is not empty, the draft is
  the plain text.
\<close>

theorem dispatch_priority:
  assumes mem: "memory_requests inp (parsedMetadata (jsonParse env) full ''memoryToCreate'') = (mem_evs, None)"
  shows
    "(nonBlankString (parsedMetadata (jsonParse env) full ''code'') = Some c
        \<longrightarrow> dispatch env inp full =
              (mem_evs,
               Inr \<lparr>messages =
                      [attach_raw inp full
                         ((ai_draft inp (userVisibleText full))
                            \<lparr>code := Some (trim c),
                             language :=
                               Some (if truthy (parsedMetadata (jsonParse env) full ''language'')
                                     then parsedMetadata (jsonParse env) full ''language''
                                     else JStr ''plaintext'')\<rparr>)],
                    updatedPlan = None\<rparr>)
            \<and> \<not> list_ex is_generation (fst (dispatch env inp full)))
     \<and> (nonBlankString (parsedMetadata (jsonParse env) full ''code'') = None
          \<and> nonBlankString (parsedMetadata (jsonParse env) full ''imagePrompt'') = Some imagePrompt
          \<and> profileFetch env = Inr (Some p, None)
          \<and> (membership p = ''admin''
               \<or> (settingsFetch env = Inr (Some tbl, None)
                  \<and> \<not> credits p < lookup_cost tbl (modelToUse p) \<and> deductCredits env = None))
          \<and> generateImage env imagePrompt (modelToUse p) = Inr (imageBase64, fallbackOccurred)
        \<longrightarrow> list_ex is_generation (fst (dispatch env inp full))
            \<and> snd (dispatch env inp full) =
                Inr \<lparr>messages =
                       [attach_raw inp full
                          ((ai_draft inp (if fallbackOccurred
                                          then userVisibleText full @ fallback_note
                                          else userVisibleText full))
                             \<lparr>image_base64 := Some imageBase64, imageStatus := Some ''complete''\<rparr>)],
                     updatedPlan = None\<rparr>)
     \<and> (nonBlankString (parsedMetadata (jsonParse env) full ''code'') = None
          \<and> nonBlankString (parsedMetadata (jsonParse env) full ''imagePrompt'') = None
          \<and> userVisibleText full \<noteq> []
        \<longrightarrow> dispatch env inp full =
              (mem_evs,
               Inr \<lparr>messages = [attach_raw inp full (ai_draft inp (userVisibleText full))],
                    updatedPlan = None\<rparr>))"
proof (intro conjI impI)
  assume c: "nonBlankString (parsedMetadata (jsonParse env) full ''code'') = Some c"
  show "dispatch env inp full =
              (mem_evs,
               Inr \<lparr>messages =
                      [attach_raw inp full
                         ((ai_draft inp (userVisibleText full))
                            \<lparr>code := Some (trim c),
                             language :=
                               Some (if truthy (parsedMetadata (jsonParse env) full ''language'')
                                     then parsedMetadata (jsonParse env) full ''language''
                                     else JStr ''plaintext'')\<rparr>)],
                    updatedPlan = None\<rparr>)"
    using dispatch_code [OF mem c] by (simp add: single_def)
  show "\<not> list_ex is_generation (fst (dispatch env inp full))"
    using dispatch_code [OF mem c]
      memory_requests_events [of inp "parsedMetadata (jsonParse env) full ''memoryToCreate''"] mem
    by simp
next
  assume a: "nonBlankString (parsedMetadata (jsonParse env) full ''code'') = None
          \<and> nonBlankString (parsedMetadata (jsonParse env) full ''imagePrompt'') = Some imagePrompt
          \<and> profileFetch env = Inr (Some p, None)
          \<and> (membership p = ''admin''
               \<or> (settingsFetch env = Inr (Some tbl, None)
                  \<and> \<not> credits p < lookup_cost tbl (modelToUse p) \<and> deductCredits env = None))
          \<and> generateImage env imagePrompt (modelToUse p) = Inr (imageBase64, fallbackOccurred)"
  note g = dispatch_generated [OF mem a [THEN conjunct1] a [THEN conjunct2, THEN conjunct1]
      a [THEN conjunct2, THEN conjunct2, THEN conjunct1]
      a [THEN conjunct2, THEN conjunct2, THEN conjunct2, THEN conjunct1]
      a [THEN conjunct2, THEN conjunct2, THEN conjunct2, THEN conjunct2]]
  from g show "list_ex is_generation (fst (dispatch env inp full))" by (rule conjunct1)
  from g show "snd (dispatch env inp full) =
                Inr \<lparr>messages =
                       [attach_raw inp full
                          ((ai_draft inp (if fallbackOccurred
                                          then userVisibleText full @ fallback_note
                                          else userVisibleText full))
                             \<lparr>image_base64 := Some imageBase64, imageStatus := Some ''complete''\<rparr>)],
                     updatedPlan = None\<rparr>" by (rule conjunct2)
next
  assume a: "nonBlankString (parsedMetadata (jsonParse env) full ''code'') = None
          \<and> nonBlankString (parsedMetadata (jsonParse env) full ''imagePrompt'') = None
          \<and> userVisibleText full \<noteq> []"
  then show "dispatch env inp full =
              (mem_evs,
               Inr \<lparr>messages = [attach_raw inp full (ai_draft inp (userVisibleText full))],
                    updatedPlan = None\<rparr>)"
    using dispatch_text [OF mem, of ] by (simp add: single_def)
qed

theorem dispatch_priority_witness:
  "dispatch ex_env ex_inp code_response
     = ([], Inr \<lparr>messages =
                  [(ai_draft ex_inp ''Here:'')
                     \<lparr>code := Some ''print(1)'', language := Some (JStr ''plaintext'')\<rparr>],
                updatedPlan = None\<rparr>)
   \<and> snd (dispatch (ex_env\<lparr>profileFetch := Inr (Some (ex_profile\<lparr>membership := ''admin''\<rparr>), None)\<rparr>)
            ex_inp cat_response)
     = Inr \<lparr>messages =
              [(ai_draft ex_inp ''On it!'')
                 \<lparr>image_base64 := Some ''iVBORw0KGgo='', imageStatus := Some ''complete''\<rparr>],
            updatedPlan = None\<rparr>
   \<and> dispatch ex_env ex_inp ''Hello!''
     = ([], Inr \<lparr>messages = [ai_draft ex_inp ''Hello!''], updatedPlan = None\<rparr>)"
proof -
  let ?adm = "ex_env\<lparr>profileFetch := Inr (Some (ex_profile\<lparr>membership := ''admin''\<rparr>), None)\<rparr>"
  have raw: "attach_raw ex_inp full d = d" for full d
    by (simp add: attach_raw_def ex_inp_def)
  have m1: "memory_requests ex_inp
              (parsedMetadata (jsonParse ex_env) code_response
                 ''memoryToCreate'') = ([], None)"
    by (simp add: cat_response_def code_response_def ex_eval agent_eval)
  have c1: "nonBlankString
              (parsedMetadata (jsonParse ex_env) code_response ''code'')
              = Some ''print(1)''"
    by (simp add: cat_response_def code_response_def ex_eval agent_eval)
  have l1: "\<not> truthy (parsedMetadata (jsonParse ex_env) code_response
                        ''language'')"
    by (simp add: cat_response_def code_response_def ex_eval agent_eval truthy_def)
  have v1: "userVisibleText code_response = ''Here:''"
    by (simp add: cat_response_def code_response_def ex_eval agent_eval)
  have t1: "trim ''print(1)'' = ''print(1)''"
    by (simp add: trim_def isWhiteSpace_def)
  from dispatch_priority [OF m1, of "''print(1)''", THEN conjunct1] c1
  have a: "dispatch ex_env ex_inp code_response
     = ([], Inr \<lparr>messages =
                  [(ai_draft ex_inp ''Here:'')
                     \<lparr>code := Some ''print(1)'', language := Some (JStr ''plaintext'')\<rparr>],
                updatedPlan = None\<rparr>)"
    by (simp add: raw l1 v1 t1)
  have m2: "memory_requests ex_inp
              (parsedMetadata (jsonParse ?adm) cat_response
                 ''memoryToCreate'') = ([], None)"
    by (simp add: cat_response_def code_response_def ex_eval agent_eval)
  have h2: "nonBlankString
              (parsedMetadata (jsonParse ?adm) cat_response ''code'')
              = None
            \<and> nonBlankString
              (parsedMetadata (jsonParse ?adm) cat_response
                 ''imagePrompt'') = Some ''a cat''
            \<and> profileFetch ?adm = Inr (Some (ex_profile\<lparr>membership := ''admin''\<rparr>), None)
            \<and> (membership (ex_profile\<lparr>membership := ''admin''\<rparr>) = ''admin''
                 \<or> (settingsFetch ?adm = Inr (Some ex_settings, None)
                    \<and> \<not> credits (ex_profile\<lparr>membership := ''admin''\<rparr>)
                          < lookup_cost ex_settings (modelToUse (ex_profile\<lparr>membership := ''admin''\<rparr>))
                    \<and> deductCredits ?adm = None))
            \<and> generateImage ?adm ''a cat'' (modelToUse (ex_profile\<lparr>membership := ''admin''\<rparr>))
                = Inr (''iVBORw0KGgo='', False)"
    by (simp add: cat_response_def code_response_def ex_eval agent_eval)
  have v2: "userVisibleText cat_response = ''On it!''"
    by (simp add: cat_response_def code_response_def ex_eval agent_eval)
  from dispatch_priority [OF m2, THEN conjunct2, THEN conjunct1, rule_format, OF h2]
  have b: "snd (dispatch ?adm ex_inp cat_response)
     = Inr \<lparr>messages =
              [(ai_draft ex_inp ''On it!'')
                 \<lparr>image_base64 := Some ''iVBORw0KGgo='', imageStatus := Some ''complete''\<rparr>],
            updatedPlan = None\<rparr>"
    by (simp add: raw v2)
  have m3: "memory_requests ex_inp (parsedMetadata (jsonParse ex_env) ''Hello!'' ''memoryToCreate'')
              = ([], None)"
    by (simp add: cat_response_def code_response_def ex_eval agent_eval)
  have h3: "nonBlankString (parsedMetadata (jsonParse ex_env) ''Hello!'' ''code'') = None
            \<and> nonBlankString (parsedMetadata (jsonParse ex_env) ''Hello!'' ''imagePrompt'') = None
            \<and> userVisibleText ''Hello!'' \<noteq> []"
    by (simp add: cat_response_def code_response_def ex_eval agent_eval)
  have v3: "userVisibleText ''Hello!'' = ''Hello!''"
    by (simp add: cat_response_def code_response_def ex_eval agent_eval)
  from dispatch_priority [OF m3, THEN conjunct2, THEN conjunct2, rule_format, OF h3]
  have c: "dispatch ex_env ex_inp ''Hello!''
     = ([], Inr \<lparr>messages = [ai_draft ex_inp ''Hello!''], updatedPlan = None\<rparr>)"
    by (simp add: raw v3)
  from a b c show ?thesis by blast
qed

text \<open>
  Claim C5 as it is written gives every payload with an image prompt a draft with the
  visible text, an image and a status. In the example turn the payload has an image
  prompt and no code, the visible text is \<open>On it!\<close>, and the draft is the shortfall
  notice: no image, no status.
\<close>

theorem gated_image_counterexample:
  "nonBlankString (parsedMetadata (jsonParse ex_env) cat_response ''code'')
     = None
   \<and> nonBlankString
       (parsedMetadata (jsonParse ex_env) cat_response ''imagePrompt'')
     = Some ''a cat''
   \<and> userVisibleText cat_response = ''On it!''
   \<and> snd (dispatch ex_env ex_inp cat_response)
     = Inr \<lparr>messages =
              [\<lparr>project_id = ''autonomous-project'', chat_id = ''c1'', user_id = None, sender = Ai,
                text = Text ''Oops! You need 1 credits to generate an image, but you only have 0.'',
                code = None, language = None, image_base64 = None, imageStatus = None,
                raw_ai_response = None, plan = None\<rparr>],
            updatedPlan = None\<rparr>"
  by (simp add: cat_response_def code_response_def ex_eval agent_eval dispatch_def image_branch_def credit_gate_def lookup_cost_def
      modelToUse_def shortfall_notice_def single_def ai_draft_def image_start_def)

section \<open>The empty response in \<open>handleSendMessage\<close>\<close>










end
